theory Spec2Isabelle
  imports Main "HOL-Library.AList"
begin

section \<open>Strings\<close>

text \<open>
  File names, file contents and console lines are character lists. JavaScript's
  \<open>s.endsWith(suffix)\<close> and \<open>xs.join(sep)\<close> are written out. Console lines are
  given without the emoji that opens them, and the paths they print are relative to
  \<open>docs/source\<close>.
\<close>

definition endsWith :: "string \<Rightarrow> string \<Rightarrow> bool" where
  "endsWith s suffix =
     (length suffix \<le> length s \<and> drop (length s - length suffix) s = suffix)"

fun join :: "string \<Rightarrow> string list \<Rightarrow> string" where
  "join sep [] = []"
| "join sep [x] = x"
| "join sep (x # y # ys) = x @ sep @ join sep (y # ys)"

text \<open>\<open>s.split(sep)\<close> for a separator of one character.\<close>

definition split_on :: "char \<Rightarrow> string \<Rightarrow> string list" where
  "split_on sep s =
     foldr (\<lambda>c ls. if c = sep then [] # ls
                    else (case ls of [] \<Rightarrow> [[c]] | l # rest \<Rightarrow> (c # l) # rest)) s [[]]"

section \<open>The debounced rebuild trigger (scripts/file-watcher.js)\<close>

text \<open>
  The script keeps two module variables, \<open>buildTimeout\<close> and \<open>isBuilding\<close>. A timer
  handle is modelled by the deadline of the pending timer in milliseconds, \<open>None\<close> when
  no timer is pending: \<open>clearTimeout\<close> followed by \<open>setTimeout(f, 2000)\<close> replaces the
  deadline. \<open>spawned\<close> counts the calls of \<open>spawn('node', [BUILD_SCRIPT])\<close>, and
  \<open>console\<close> collects the lines printed.
\<close>

record watcher =
  buildTimeout :: "nat option"
  isBuilding :: bool
  spawned :: nat
  console :: "string list"

definition idle :: watcher where
  "idle = \<lparr>buildTimeout = None, isBuilding = False, spawned = 0, console = []\<rparr>"

definition triggerBuild :: "nat \<Rightarrow> watcher \<Rightarrow> watcher" where
  "triggerBuild now w =
     (if isBuilding w
      then w\<lparr>console := console w @ [''Build already in progress, skipping...'']\<rparr>
      else w\<lparr>buildTimeout := Some (now + 2000)\<rparr>)"

text \<open>The callback handed to \<open>setTimeout\<close>: it raises the flag and spawns the build.\<close>

definition timer_callback :: "watcher \<Rightarrow> watcher" where
  "timer_callback w =
     w\<lparr>buildTimeout := None, isBuilding := True, spawned := spawned w + 1,
       console := console w @ [''Source files changed, rebuilding MCP documentation...'']\<rparr>"

text \<open>The handlers of the build process's \<open>close\<close> and \<open>error\<close> events.\<close>

definition on_close :: "int \<Rightarrow> watcher \<Rightarrow> watcher" where
  "on_close code w =
     (if code = 0
      then w\<lparr>isBuilding := False,
             console := console w @ [''MCP documentation rebuilt successfully'',
               ''Run reindex_docs in your AI chat to update context'']\<rparr>
      else w\<lparr>isBuilding := False, console := console w @ [''Build failed with code'']\<rparr>)"

definition on_error :: "watcher \<Rightarrow> watcher" where
  "on_error w = w\<lparr>isBuilding := False, console := console w @ [''Build error'']\<rparr>"

text \<open>
  The two \<open>fs.watch\<close> callbacks of \<open>startWatching\<close>: one on the source tree, one on the
  configuration directory. The file name of an event may be null.
\<close>

datatype fs_event = SourceEvent "string option" | ConfigEvent "string option"

fun qualifying :: "fs_event \<Rightarrow> bool" where
  "qualifying (SourceEvent None) = False"
| "qualifying (SourceEvent (Some filename)) = endsWith filename ''.md''"
| "qualifying (ConfigEvent None) = False"
| "qualifying (ConfigEvent (Some filename)) = endsWith filename ''.json''"

fun event_line :: "fs_event \<Rightarrow> string" where
  "event_line (SourceEvent filename) = ''Detected change: '' @ (case filename of None \<Rightarrow> [] | Some f \<Rightarrow> f)"
| "event_line (ConfigEvent filename) = ''Config change detected: '' @ (case filename of None \<Rightarrow> [] | Some f \<Rightarrow> f)"

definition on_fs_event :: "nat \<Rightarrow> fs_event \<Rightarrow> watcher \<Rightarrow> watcher" where
  "on_fs_event now e w =
     (if qualifying e
      then triggerBuild now (w\<lparr>console := console w @ [event_line e]\<rparr>)
      else w)"

text \<open>
  The event loop. Every input carries the time at which its callback runs. A pending
  timer whose deadline has passed runs its callback first (\<open>elapse\<close>); then the input's
  own handler runs.
\<close>

datatype input = Fs fs_event | Close int | Error

definition elapse :: "nat \<Rightarrow> watcher \<Rightarrow> watcher" where
  "elapse now w =
     (case buildTimeout w of
        None \<Rightarrow> w
      | Some deadline \<Rightarrow> if deadline \<le> now then timer_callback w else w)"

fun handle :: "nat \<times> input \<Rightarrow> watcher \<Rightarrow> watcher" where
  "handle (now, Fs e) w = on_fs_event now e (elapse now w)"
| "handle (now, Close code) w = on_close code (elapse now w)"
| "handle (now, Error) w = on_error (elapse now w)"

definition run :: "(nat \<times> input) list \<Rightarrow> watcher \<Rightarrow> watcher" where
  "run inputs w = fold handle inputs w"

text \<open>
  A burst: qualifying file-system events at non-decreasing times, each less than the
  quiet period of 2000 ms after the one before.
\<close>

fun burst :: "(nat \<times> fs_event) list \<Rightarrow> bool" where
  "burst [] = True"
| "burst [(t, e)] = qualifying e"
| "burst ((t, e) # (u, e') # rest) =
     (qualifying e \<and> t \<le> u \<and> u < t + 2000 \<and> burst ((u, e') # rest))"

definition fs_inputs :: "(nat \<times> fs_event) list \<Rightarrow> (nat \<times> input) list" where
  "fs_inputs evs = map (\<lambda>(t, e). (t, Fs e)) evs"

section \<open>The staleness check of the reindex hook\<close>

text \<open>
  The hook script compares the newest markdown file under \<open>docs/source\<close> with the
  newest one under \<open>docs/build/mcp\<close>. A tree is the list of its regular files, each
  with its path and modification time, or \<open>None\<close> when the directory does not exist.
  \<open>find ... -name "*.md" -type f\<close> keeps the files whose name ends in \<open>.md\<close>; a path
  ends in \<open>.md\<close> exactly when its last component does.
\<close>

record file_stat =
  path :: string
  mtime :: nat

type_synonym tree = "file_stat list option"

definition find_md :: "file_stat list \<Rightarrow> file_stat list" where
  "find_md files = filter (\<lambda>f. endsWith (path f) ''.md'') files"

text \<open>
  \<open>sort -n | tail -1\<close> on the lines \<open>mtime path\<close>: the last line in ascending order of
  modification time, none when \<open>find\<close> printed nothing. Among files of equal time
  \<open>sort\<close> orders by the rest of the line; each of them has the same time, which is
  all the comparison below reads.
\<close>

definition newest :: "file_stat list \<Rightarrow> file_stat option" where
  "newest files =
     (case sort_key mtime (find_md files) of
        [] \<Rightarrow> None
      | f # fs \<Rightarrow> Some (last (f # fs)))"

text \<open>\<open>[ a -nt b ]\<close> on two existing files: \<open>a\<close> was modified strictly later.\<close>

definition nt :: "file_stat \<Rightarrow> file_stat \<Rightarrow> bool" where
  "nt a b = (mtime b < mtime a)"

definition SOURCE_NEWER :: "tree \<Rightarrow> tree \<Rightarrow> bool" where
  "SOURCE_NEWER source build =
     (case (source, build) of
        (Some s, Some b) \<Rightarrow>
          (case (newest s, newest b) of
             (Some NEWEST_SOURCE, Some NEWEST_BUILD) \<Rightarrow> nt NEWEST_SOURCE NEWEST_BUILD
           | (Some NEWEST_SOURCE, None) \<Rightarrow> True
           | _ \<Rightarrow> False)
      | _ \<Rightarrow> False)"

text \<open>\<open>[ "$1" = "--force" ]\<close>: the first argument of the script is the force flag.\<close>

fun force :: "string list \<Rightarrow> bool" where
  "force [] = False"
| "force (a # _) = (a = ''--force'')"

definition stale :: "string list \<Rightarrow> tree \<Rightarrow> tree \<Rightarrow> bool" where
  "stale args source build = (SOURCE_NEWER source build \<or> force args)"

datatype outcome = NotDocsProject | Rebuild | UpToDate

text \<open>The hook as a whole; \<open>has_build_docs\<close> is the test \<open>[ -f scripts/build-docs.sh ]\<close>.\<close>

definition mcp_build_hook :: "bool \<Rightarrow> string list \<Rightarrow> tree \<Rightarrow> tree \<Rightarrow> outcome" where
  "mcp_build_hook has_build_docs args source build =
     (if \<not> has_build_docs then NotDocsProject
      else if stale args source build then Rebuild
      else UpToDate)"

section \<open>The source tree and the output trees\<close>

text \<open>
  Both emitters read \<open>docs/source\<close> and write a directory of their own under
  \<open>docs/build\<close>. A directory of the source tree is the list of its regular files in
  enumeration order, each with its name and content; \<open>readdir\<close> gives the names and
  \<open>readFile\<close> the content stored under a name. The source tree maps the path of a
  directory below \<open>docs/source\<close> to its listing, \<open>None\<close> when the directory does not
  exist; the path is written with \<open>/\<close> between its components, and \<open>docs/source\<close>
  itself is the empty path. \<open>docs/source\<close> holds directories only. An output tree
  maps a path below the build directory to the content of the file there.
\<close>

type_synonym dir = "(string \<times> string) list"
type_synonym source_tree = "string \<Rightarrow> dir option"
type_synonym out_tree = "string \<rightharpoonup> string"

datatype msg = Log string | Warn string

type_synonym build = "out_tree \<times> msg list"

datatype error = ConfigurationError | ReadError string | ParseError string

definition readdir :: "dir \<Rightarrow> string list" where
  "readdir d = map fst d"

definition readFile :: "dir \<Rightarrow> string \<Rightarrow> string option" where
  "readFile d name = map_of d name"

text \<open>
  \<open>path.join\<close> splits its arguments at the separator and normalises the components:
  an empty component and \<open>.\<close> are dropped, \<open>..\<close> removes the component before it
  and stays when there is none to remove.
\<close>

definition normalize :: "string list \<Rightarrow> string list" where
  "normalize comps =
     fold (\<lambda>c acc. if c = [] \<or> c = ''.'' then acc
                     else if c = ''..''
                       then (if acc \<noteq> [] \<and> last acc \<noteq> ''..'' then butlast acc else acc @ [''..''])
                     else acc @ [c]) comps []"

definition path_join :: "string list \<Rightarrow> string list" where
  "path_join parts = normalize (concat (map (split_on CHR ''/'') parts))"

text \<open>
  What a path below \<open>docs/source\<close> names: a directory, a regular file of the directory
  above it, or nothing. \<open>source_file\<close> is the node at
  \<open>path.join(SOURCE_DIR, d, name)\<close>; \<open>fs.pathExists\<close> holds when there is one.
\<close>

datatype node = File string | Directory dir

definition stat :: "source_tree \<Rightarrow> string list \<Rightarrow> node option" where
  "stat src comps =
     (case src (join ''/'' comps) of
        Some d \<Rightarrow> Some (Directory d)
      | None \<Rightarrow>
          if length comps < 2 then None
          else (case src (join ''/'' (butlast comps)) of
                  None \<Rightarrow> None
                | Some l \<Rightarrow> map_option File (readFile l (last comps))))"

definition source_file :: "source_tree \<Rightarrow> string \<Rightarrow> string \<Rightarrow> node option" where
  "source_file src d name = stat src (path_join [d, name])"

definition emptyDir :: "out_tree \<Rightarrow> out_tree" where
  "emptyDir out = Map.empty"

section \<open>The publishing emitter (scripts/build-gitbook.js)\<close>

text \<open>
  \<open>config/gitbook-config.json\<close>: the fields the script reads, \<open>config.title\<close>,
  \<open>config.structure\<close> and \<open>config.readme.content\<close>, and the fields \<open>title\<close>,
  \<open>file\<close> and \<open>source\<close> of an entry of \<open>config.structure\<close>.
\<close>

record item =
  item_title :: string
  item_file :: string
  item_source :: string

record gitbook_config =
  config_title :: string
  config_structure :: "item list"
  config_readme_content :: string

definition readme_link :: "item \<Rightarrow> string" where
  "readme_link i = ''- ['' @ item_title i @ '']('' @ item_file i @ '')''"

definition summary_link :: "item \<Rightarrow> string" where
  "summary_link i = ''* ['' @ item_title i @ '']('' @ item_file i @ '')''"

text \<open>
  \<open>today\<close> is \<open>new Date().toISOString().split('T')[0]\<close>, the date of the run as the
  clock gives it.
\<close>

definition readmeContent :: "gitbook_config \<Rightarrow> string \<Rightarrow> string" where
  "readmeContent config today =
     ''# '' @ config_title config @ ''\<newline>\<newline>''
     @ config_readme_content config @ ''\<newline>\<newline>''
     @ ''## Table of Contents\<newline>\<newline>''
     @ join ''\<newline>'' (map readme_link (config_structure config)) @ ''\<newline>\<newline>''
     @ ''---\<newline>\<newline>''
     @ ''*Last updated: '' @ today @ ''*\<newline>''"

definition summaryContent :: "gitbook_config \<Rightarrow> string" where
  "summaryContent config =
     ''# Table of contents\<newline>\<newline>''
     @ ''* [Introduction](README.md)\<newline>\<newline>''
     @ join ''\<newline>'' (map summary_link (config_structure config)) @ ''\<newline>''"

fun generateReadme :: "gitbook_config \<Rightarrow> string \<Rightarrow> build \<Rightarrow> build" where
  "generateReadme config today (out, lg) =
     (out(''README.md'' \<mapsto> readmeContent config today), lg @ [Log ''Generated README.md''])"

fun generateSummary :: "gitbook_config \<Rightarrow> build \<Rightarrow> build" where
  "generateSummary config (out, lg) =
     (out(''SUMMARY.md'' \<mapsto> summaryContent config), lg @ [Log ''Generated SUMMARY.md''])"

definition sourceDir :: "item \<Rightarrow> string" where
  "sourceDir i = (if item_source i = ''shared'' then ''shared'' else ''gitbook'')"

text \<open>
  \<open>fs.copy\<close>. The destination is a path below the build directory, \<open>None\<close> when
  \<open>path.join(BUILD_DIR, item.file)\<close> leaves the build directory: such a copy writes
  outside the output tree. A regular file lands at the destination. \<open>fs.copy\<close> copies
  a directory with all that is below it; a listing holds the regular files directly
  in the directory, and these are the files that land under the destination here.
\<close>

definition under :: "string \<Rightarrow> string \<Rightarrow> string" where
  "under dest name = (if dest = [] then name else dest @ ''/'' @ name)"

definition copy_dir :: "dir \<Rightarrow> string \<Rightarrow> out_tree \<Rightarrow> out_tree" where
  "copy_dir d dest out = out ++ map_of (map (\<lambda>(name, c). (under dest name, c)) d)"

definition destPath :: "item \<Rightarrow> string list option" where
  "destPath i =
     (let comps = path_join [item_file i]
      in if comps \<noteq> [] \<and> hd comps = ''..'' then None else Some comps)"

fun copy :: "node \<Rightarrow> string list option \<Rightarrow> out_tree \<Rightarrow> out_tree" where
  "copy n None out = out"
| "copy (File c) (Some comps) out = (if comps = [] then out else out(join ''/'' comps \<mapsto> c))"
| "copy (Directory d) (Some comps) out = copy_dir d (join ''/'' comps) out"

text \<open>
  One turn of the loop of \<open>copySourceFiles\<close>: the line it prints, a warning when the
  source path does not exist, and what it does to the output tree.
\<close>

definition sourcePath :: "item \<Rightarrow> string" where
  "sourcePath i = join ''/'' (path_join [sourceDir i, item_file i])"

definition copy_line :: "source_tree \<Rightarrow> item \<Rightarrow> msg" where
  "copy_line src i =
     (case source_file src (sourceDir i) (item_file i) of
        Some n \<Rightarrow> Log (''Copied '' @ item_file i @ '' from '' @ sourceDir i @ ''/'')
      | None \<Rightarrow> Warn (''Warning: '' @ sourcePath i @ '' not found''))"

fun copy_item :: "source_tree \<Rightarrow> item \<Rightarrow> build \<Rightarrow> build" where
  "copy_item src i (out, lg) =
     (case source_file src (sourceDir i) (item_file i) of
        Some n \<Rightarrow> (copy n (destPath i) out, lg @ [copy_line src i])
      | None \<Rightarrow> (out, lg @ [copy_line src i]))"

definition copySourceFiles :: "source_tree \<Rightarrow> gitbook_config \<Rightarrow> build \<Rightarrow> build" where
  "copySourceFiles src config st = fold (copy_item src) (config_structure config) st"

text \<open>\<open>copyAssets\<close> copies two directories when they exist.\<close>

fun copyAssets :: "source_tree \<Rightarrow> build \<Rightarrow> build" where
  "copyAssets src (out, lg) =
     (let (out1, lg1) =
            (case src ''gitbook/assets'' of
               None \<Rightarrow> (out, lg)
             | Some d \<Rightarrow> (copy_dir d ''assets'' out, lg @ [Log ''Copied assets'']))
      in case src ''shared/images'' of
           None \<Rightarrow> (out1, lg1)
         | Some d \<Rightarrow> (copy_dir d ''images'' out1, lg1 @ [Log ''Copied shared images'']))"

text \<open>
  \<open>buildGitBook\<close>. The configuration is \<open>None\<close> when \<open>fs.readJson\<close> throws; the
  \<open>catch\<close> block then ends the process with exit code 1 before anything is cleared or
  written. \<open>fs.ensureDir\<close> creates the output directory when it is missing, and
  \<open>fs.emptyDir\<close> leaves it empty in either case.
\<close>

definition buildGitBook ::
  "gitbook_config option \<Rightarrow> string \<Rightarrow> source_tree \<Rightarrow> out_tree \<Rightarrow> error + build" where
  "buildGitBook config today src out =
     (case config of
        None \<Rightarrow> Inl ConfigurationError
      | Some c \<Rightarrow>
          (let st0 = (emptyDir out, [Log ''Building GitBook documentation...'']);
               st1 = generateReadme c today st0;
               st2 = generateSummary c st1;
               st3 = copySourceFiles src c st2;
               (out4, lg4) = copyAssets src st3
           in Inr (out4, lg4 @ [Log ''GitBook documentation built successfully!'',
                                Log ''Output directory: docs/build/gitbook''])))"

section \<open>The metadata-target emitter (scripts/build-mcp.js)\<close>

text \<open>
  A metadata record is a JSON object: its fields in order. The values are the ones the
  header format names: a string, a boolean, a list of glob patterns.
\<close>

datatype yaml_value = Str string | Bool bool | Seq "string list"

type_synonym metadata = "(string \<times> yaml_value) list"

record mcp_config =
  frontmatterTemplates :: "string \<rightharpoonup> metadata"
  defaultFrontmatter :: metadata

text \<open>
  \<open>config.frontmatterTemplates[configKey] || config.defaultFrontmatter\<close>. A template is
  an object, hence truthy: the default is taken exactly when the key has no entry.
\<close>

definition frontmatter :: "mcp_config \<Rightarrow> string \<Rightarrow> metadata" where
  "frontmatter config configKey =
     (case frontmatterTemplates config configKey of
        Some template \<Rightarrow> template
      | None \<Rightarrow> defaultFrontmatter config)"

text \<open>
  The library gray-matter (\<open>"gray-matter": "^4.0.3"\<close> in package.json) is not part of
  the repository. Two of its parts are parameters here: \<open>matter\<close>, which reads a
  string and splits off the front matter it may already carry, giving the data found
  and the remaining content, or \<open>None\<close> when it throws (front matter that is not
  well-formed YAML, for one); and \<open>dump\<close>, the YAML text of a record as js-yaml
  writes it, trimmed. What \<open>matter.stringify(content, data)\<close> does with them is
  written out: it reads the content, lays the given data over the data found there
  (\<open>Object.assign({}, file.data, data)\<close>), and puts the delimited block in front of the
  remaining content, each part closed by a line feed if it has none. The layout is the
  one of the files shipped under \<open>docs/build/mcp\<close>: the closing delimiter line is
  followed at once by the first line of the content. \<open>stringify\<close> is \<open>None\<close> when the
  reader throws.
\<close>

record gray_matter =
  matter :: "string \<Rightarrow> (metadata \<times> string) option"
  dump :: "metadata \<Rightarrow> string"

definition assign :: "metadata \<Rightarrow> metadata \<Rightarrow> metadata" where
  "assign target src = fold (\<lambda>(k, v). AList.update k v) src target"

definition newline :: "string \<Rightarrow> string" where
  "newline str = (if str \<noteq> [] \<and> last str = CHR ''\<newline>'' then str else str @ ''\<newline>'')"

definition stringify :: "gray_matter \<Rightarrow> string \<Rightarrow> metadata \<Rightarrow> string option" where
  "stringify gm content data =
     (case matter gm content of
        None \<Rightarrow> None
      | Some (file_data, str) \<Rightarrow>
          (let m = dump gm (assign file_data data);
               buf = (if m \<noteq> ''{}''
                      then newline ''---'' @ newline m @ newline ''---''
                      else [])
           in Some (buf @ newline str)))"

text \<open>
  The loop of \<open>processSharedFiles\<close> and of \<open>processMCPOnlyFiles\<close>; the two functions
  differ in the directory they read and in the category that opens the configuration
  key. A \<open>readFile\<close> or a \<open>matter.stringify\<close> that throws ends the loop: \<open>buildMCP\<close>
  catches the exception and exits with code 1. The result of such a run is the error
  alone: the files written before the exception stay in the emptied output directory,
  and the model does not keep them.
\<close>

definition configKey :: "string \<Rightarrow> string \<Rightarrow> string" where
  "configKey category name = category @ ''/'' @ name"

definition processed_line :: "string \<Rightarrow> string \<Rightarrow> msg" where
  "processed_line category name =
     Log (''Processed '' @ category @ ''/'' @ name @ '' with frontmatter'')"

fun process_files ::
  "gray_matter \<Rightarrow> mcp_config \<Rightarrow> string \<Rightarrow> dir \<Rightarrow> string list \<Rightarrow> build \<Rightarrow> error + build" where
  "process_files gm config category d [] st = Inr st"
| "process_files gm config category d (name # names) (out, lg) =
     (if \<not> endsWith name ''.md'' then process_files gm config category d names (out, lg)
      else case readFile d name of
             None \<Rightarrow> Inl (ReadError name)
           | Some content \<Rightarrow>
               (case stringify gm content (frontmatter config (configKey category name)) of
                  None \<Rightarrow> Inl (ParseError name)
                | Some fileWithFrontmatter \<Rightarrow>
                    process_files gm config category d names
                      (out(name \<mapsto> fileWithFrontmatter),
                       lg @ [processed_line category name])))"

fun processSharedFiles ::
  "gray_matter \<Rightarrow> mcp_config \<Rightarrow> source_tree \<Rightarrow> build \<Rightarrow> error + build" where
  "processSharedFiles gm config src (out, lg) =
     (case src ''shared'' of
        None \<Rightarrow> Inr (out, lg @ [Warn ''Shared directory not found''])
      | Some d \<Rightarrow> process_files gm config ''shared'' d (readdir d) (out, lg))"

fun processMCPOnlyFiles ::
  "gray_matter \<Rightarrow> mcp_config \<Rightarrow> source_tree \<Rightarrow> build \<Rightarrow> error + build" where
  "processMCPOnlyFiles gm config src (out, lg) =
     (case src ''mcp'' of
        None \<Rightarrow> Inr (out, lg @ [Warn ''MCP directory not found''])
      | Some d \<Rightarrow> process_files gm config ''mcp'' d (readdir d) (out, lg))"

text \<open>The text of \<open>generateUsageInstructions\<close>, line by line.\<close>

definition usage_lines :: "string list" where
  \<open>usage_lines =
    [''---'',
     ''description: "Usage instructions for the get_relevant_docs MCP tool with build integration"'',
     ''alwaysApply: true'',
     ''---'',
     '''',
     ''# Usage Instructions'',
     '''',
     ''## Document Access'',
     '''',
     ''* You **must** call the `get_relevant_docs` MCP tool before providing your first response in any new chat session.'',
     ''* After the initial call in a chat, you should **only** call `get_relevant_docs` again if one of these specific situations occurs:'',
     ''  * The user explicitly requests it.'',
     ''  * The user attaches new files.'',
     ''  * The user's query introduces a completely new topic unrelated to the previous discussion.'',
     '''',
     ''## Editing Documentation'',
     '''',
     ''When asked to modify documentation:'',
     '''',
     ''### General Rules'',
     ''1. **Always edit source files** in `docs/source/` directories'',
     ''2. **Never edit build files** in `docs/build/` (they get overwritten)'',
     ''3. **After editing**, call `reindex_docs` to update the MCP context'',
     '''',
     ''### File Locations by Purpose'',
     '''',
     ''**Shared Documentation** (appears in both GitBook and MCP):'',
     ''- Location: `docs/source/shared/`'',
     ''- Files: `api-guidelines.md`, `architecture.md`, `deployment.md`'',
     ''- Use for: Core technical docs, API specs, system design'',
     '''',
     ''**GitBook-Only Documentation** (human-readable content only):'',
     ''- Location: `docs/source/gitbook/`'',
     ''- Files: `getting-started.md`, `tutorials.md`, `company-info.md`'',
     ''- Use for: Tutorials, walkthroughs, company info, screenshots, marketing content'',
     '''',
     ''**MCP-Only Documentation** (LLM context only):'',
     ''- Location: `docs/source/mcp/` '',
     ''- Files: `code-review.md`, `debug-checklist.md`, `llm-instructions.md`'',
     ''- Use for: Code review checklists, debugging procedures, LLM behavior rules'',
     '''',
     ''### When Asked About GitBook Updates'',
     '''',
     ''**When asked to update GitBook content, only use these files:**'',
     ''- `docs/source/gitbook/*.md` - For GitBook-specific content'',
     ''- `docs/source/shared/*.md` - For content that should appear in both systems'',
     '''',
     ''**Do NOT edit** `docs/source/mcp/*.md` files when updating GitBook content.'',
     '''',
     ''### When Asked About MCP/LLM Context Updates'',
     '''',
     ''**When asked to update MCP/LLM context, use these files:**'',
     ''- `docs/source/mcp/*.md` - For LLM-specific instructions and checklists'',
     ''- `docs/source/shared/*.md` - For core documentation that LLMs should know'',
     '''',
     ''### After Any Documentation Edit'',
     '''',
     ''Always suggest calling `reindex_docs` to update the MCP context with the latest changes.'',
     '''',
     ''## Smart Linking Features'',
     '''',
     ''When creating documentation, use these special link formats to enhance MCP context:'',
     '''',
     ''### Link Entire Files (?md-link=true)'',
     ''To include the full contents of referenced files in the MCP context:'',
     ''```markdown'',
     ''See [Database Schema](./database-schema.md?md-link=true) for complete details.'',
     ''See [Utility Functions](../src/utils.ts?md-link=true) for helper code.'',
     ''```'',
     '''',
     ''### Embed Specific Lines (?md-embed=START-END)'',
     ''To include only specific lines from files:'',
     ''```markdown'',
     ''Configuration example: [API Config](./config.json?md-embed=1-10)'',
     ''Error handling pattern: [Utils](../src/utils.ts?md-embed=45-65)'',
     ''```'',
     '''',
     ''### When to Use Smart Links'',
     '''',
     ''**Use ?md-link=true when:**'',
     ''- Referencing complete documentation files'',
     ''- Linking to source code that should be fully included'',
     ''- Cross-referencing between documentation sections'',
     '''',
     ''**Use ?md-embed=START-END when:**'',
     ''- Showing specific code examples'',
     ''- Including relevant configuration snippets'',
     ''- Highlighting particular functions or sections'',
     '''',
     ''**Use regular links when:**'',
     ''- Creating GitBook navigation (smart links don't work in GitBook)'',
     ''- Linking to external resources'',
     ''- Simple cross-references that don't need full content inclusion'',
     '''',
     ''### Smart Link Examples'',
     '''',
     ''```markdown'',
     ''<!-- Good: Include full utility file in MCP context -->'',
     ''For helper functions, see [Utils](../src/utils.ts?md-link=true).'',
     '''',
     ''<!-- Good: Include specific config section -->'',
     ''Database settings: [Config](./config.json?md-embed=15-25)'',
     '''',
     ''<!-- Good: Regular link for GitBook navigation -->'',
     ''Continue to [Next Chapter](./chapter-2.md)'',
     ''```'',
     '''',
     ''## Rebuilding Documentation'',
     '''',
     ''When documentation source files change:'',
     '''',
     ''1. **Automatic Rebuild**: If file watcher is running (`npm run watch:mcp`), MCP docs rebuild automatically'',
     ''2. **Manual Rebuild**: Run `reindex_docs` tool to trigger a rebuild and reindex'',
     ''3. **Force Rebuild**: Use `npm run mcp:force-rebuild` in the project directory'',
     '''',
     ''## Available Documentation'',
     '''',
     ''This project includes the following types of documentation:'',
     '''',
     ''- **Architecture**: System design and technical decisions (always included)'',
     ''- **API Guidelines**: Development standards and best practices (always included)'',
     ''- **Code Review**: Quality assurance checklists (included for code files)'',
     ''- **Deployment**: Production deployment procedures (included for deploy files)'',
     ''- **Debug Procedures**: Troubleshooting and debugging steps'',
     '''',
     ''## Context Usage'',
     '''',
     ''The documentation is automatically filtered based on:'',
     ''- File types being worked on (via `globs` in frontmatter)'',
     ''- Project areas being discussed'',
     ''- Specific topics mentioned in queries'',
     ''- Always-apply rules for critical documentation'',
     '''',
     ''## Reindexing Process'',
     '''',
     ''When you call `reindex_docs`:'',
     ''1. System checks if source documentation has changed'',
     ''2. If changes detected, rebuilds MCP documentation from source'',
     ''3. Reindexes the updated files'',
     ''4. You'll get fresh context from the latest documentation'',
     '''',
     ''Always consult the most relevant documentation before providing advice or making suggestions.'']\<close>
definition usageContent :: string where
  "usageContent = concat (map (\<lambda>l. l @ ''\<newline>'') usage_lines)"

fun generateUsageInstructions :: "build \<Rightarrow> build" where
  "generateUsageInstructions (out, lg) =
     (out(''markdown-rules.md'' \<mapsto> usageContent), lg @ [Log ''Generated markdown-rules.md''])"

definition buildMCP ::
  "gray_matter \<Rightarrow> mcp_config option \<Rightarrow> source_tree \<Rightarrow> out_tree \<Rightarrow> error + build" where
  "buildMCP gm config src out =
     (case config of
        None \<Rightarrow> Inl ConfigurationError
      | Some c \<Rightarrow>
          (case processSharedFiles gm c src (emptyDir out, [Log ''Building MCP documentation...'']) of
             Inl e \<Rightarrow> Inl e
           | Inr st1 \<Rightarrow>
               (case processMCPOnlyFiles gm c src st1 of
                  Inl e \<Rightarrow> Inl e
                | Inr st2 \<Rightarrow>
                    (case generateUsageInstructions st2 of
                       (out3, lg3) \<Rightarrow>
                         Inr (out3, lg3 @ [Log ''MCP documentation built successfully!'',
                                           Log ''Output directory: docs/build/mcp''])))))"


section \<open>What the loops write\<close>

text \<open>
  The file one turn of the processing loop writes under a name of directory \<open>d\<close>, and
  the console lines of a whole pass over \<open>d\<close>.
\<close>

definition emitted :: "gray_matter \<Rightarrow> mcp_config \<Rightarrow> string \<Rightarrow> dir \<Rightarrow> string \<rightharpoonup> string" where
  "emitted gm config category d name =
     (if endsWith name ''.md''
      then (case readFile d name of
              None \<Rightarrow> None
            | Some content \<Rightarrow> stringify gm content (frontmatter config (configKey category name)))
      else None)"

text \<open>
  The reader accepts every markdown file of a directory, and of the two directories
  the metadata-target emitter reads.
\<close>

definition parses :: "gray_matter \<Rightarrow> dir \<Rightarrow> bool" where
  "parses gm d =
     list_all (\<lambda>name. endsWith name ''.md'' \<longrightarrow>
                 (case readFile d name of
                    None \<Rightarrow> False
                  | Some content \<Rightarrow> matter gm content \<noteq> None)) (readdir d)"

definition readable :: "gray_matter \<Rightarrow> source_tree \<Rightarrow> bool" where
  "readable gm src =
     ((case src ''shared'' of None \<Rightarrow> True | Some d \<Rightarrow> parses gm d)
      \<and> (case src ''mcp'' of None \<Rightarrow> True | Some d \<Rightarrow> parses gm d))"

definition processed_lines :: "string \<Rightarrow> string list \<Rightarrow> msg list" where
  "processed_lines category names =
     map (processed_line category) (filter (\<lambda>name. endsWith name ''.md'') names)"

text \<open>
  The markdown files of a directory of the source tree, the files one turn of the copy
  loop of the publishing emitter writes, the paths the whole loop writes, and the
  paths \<open>copyAssets\<close> writes.
\<close>

definition md_files :: "source_tree \<Rightarrow> string \<Rightarrow> string set" where
  "md_files src d =
     (case src d of
        None \<Rightarrow> {}
      | Some l \<Rightarrow> {name \<in> set (readdir l). endsWith name ''.md''})"

definition copied :: "source_tree \<Rightarrow> item \<Rightarrow> out_tree" where
  "copied src i =
     (case source_file src (sourceDir i) (item_file i) of
        None \<Rightarrow> Map.empty
      | Some n \<Rightarrow> copy n (destPath i) Map.empty)"

definition copied_files :: "source_tree \<Rightarrow> gitbook_config \<Rightarrow> string set" where
  "copied_files src config = (\<Union>i \<in> set (config_structure config). dom (copied src i))"

definition asset_files :: "source_tree \<Rightarrow> string set" where
  "asset_files src =
     (case src ''gitbook/assets'' of
        None \<Rightarrow> {}
      | Some d \<Rightarrow> (\<lambda>name. ''assets/'' @ name) ` set (readdir d))
     \<union> (case src ''shared/images'' of
          None \<Rightarrow> {}
        | Some d \<Rightarrow> (\<lambda>name. ''images/'' @ name) ` set (readdir d))"

section \<open>The configuration and the files of the repository\<close>

text \<open>
  \<open>config/mcp-config.json\<close> and \<open>config/gitbook-config.json\<close> as \<open>setup.sh\<close> writes
  them.
\<close>

definition mcp_config_json :: mcp_config where
  "mcp_config_json =
     \<lparr>frontmatterTemplates =
        [''shared/api-guidelines.md'' \<mapsto>
           [(''description'', Str ''API development guidelines and standards''),
            (''alwaysApply'', Bool True),
            (''globs'', Seq [''**/*.ts'', ''**/*.js'', ''**/api/**''])],
         ''shared/deployment.md'' \<mapsto>
           [(''description'', Str ''Deployment procedures and configurations''),
            (''globs'', Seq [''**/deploy/**'', ''**/*.yml'', ''**/*.yaml''])],
         ''shared/architecture.md'' \<mapsto>
           [(''description'', Str ''System architecture and design decisions''),
            (''alwaysApply'', Bool True)],
         ''mcp/code-review.md'' \<mapsto>
           [(''description'', Str ''Code review checklist and standards''),
            (''globs'', Seq [''**/*.ts'', ''**/*.js'', ''**/*.tsx'', ''**/*.jsx''])],
         ''mcp/debug-checklist.md'' \<mapsto>
           [(''description'', Str ''Debugging procedures and troubleshooting steps'')],
         ''mcp/llm-instructions.md'' \<mapsto>
           [(''description'', Str ''Instructions for LLM behavior and responses''),
            (''alwaysApply'', Bool True)]],
      defaultFrontmatter = [(''description'', Str ''General project documentation'')]\<rparr>"

definition gitbook_config_json :: gitbook_config where
  "gitbook_config_json =
     \<lparr>config_title = ''Project Documentation'',
      config_structure =
        [\<lparr>item_title = ''Getting Started'', item_file = ''getting-started.md'', item_source = ''gitbook''\<rparr>,
         \<lparr>item_title = ''Company Information'', item_file = ''company-info.md'', item_source = ''gitbook''\<rparr>,
         \<lparr>item_title = ''Architecture'', item_file = ''architecture.md'', item_source = ''shared''\<rparr>,
         \<lparr>item_title = ''API Guidelines'', item_file = ''api-guidelines.md'', item_source = ''shared''\<rparr>,
         \<lparr>item_title = ''Deployment Guide'', item_file = ''deployment.md'', item_source = ''shared''\<rparr>,
         \<lparr>item_title = ''Tutorials'', item_file = ''tutorials.md'', item_source = ''gitbook''\<rparr>],
      config_readme_content =
        ''This documentation covers everything you need to know about our project.''\<rparr>"

text \<open>
  An instance of the two library functions for the examples below. \<open>yaml_block\<close> is
  the block style of the files shipped under \<open>docs/build/mcp\<close>: a line
  \<open>key: value\<close> for a string or a boolean, and for a list the key followed by one
  indented line per item, the item in single quotes as the shipped glob patterns are;
  the empty record is \<open>{}\<close>. The quoting js-yaml would choose for other strings is not
  part of this instance. \<open>flat_matter\<close> reads a content whose first line is the
  delimiter \<open>---\<close>: the lines \<open>key: value\<close> up to the closing delimiter line are the
  data, the text after that line is the content. A value that opens a flow sequence
  with \<open>[\<close> and does not close it is not well-formed YAML: there the reader throws.
  A content that does not open with the delimiter line carries no front matter and is
  returned whole.
\<close>

fun yaml_field :: "string \<times> yaml_value \<Rightarrow> string" where
  "yaml_field (k, Str s) = k @ '': '' @ s"
| "yaml_field (k, Bool b) = k @ '': '' @ (if b then ''true'' else ''false'')"
| "yaml_field (k, Seq xs) =
     k @ '':'' @ concat (map (\<lambda>x. ''\<newline>  - '' @ [CHR 0x27] @ x @ [CHR 0x27]) xs)"

definition yaml_block :: "metadata \<Rightarrow> string" where
  "yaml_block data = (if data = [] then ''{}'' else join ''\<newline>'' (map yaml_field data))"

definition lines_of :: "string \<Rightarrow> string list" where
  "lines_of s = split_on CHR ''\<newline>'' s"

definition field_of :: "string \<Rightarrow> string \<times> yaml_value" where
  "field_of l =
     (takeWhile (\<lambda>c. c \<noteq> CHR '':'') l, Str (drop 2 (dropWhile (\<lambda>c. c \<noteq> CHR '':'') l)))"

fun read_fields :: "string list \<Rightarrow> metadata \<times> string list" where
  "read_fields [] = ([], [])"
| "read_fields (l # ls) =
     (if l = ''---'' then ([], ls)
      else case read_fields ls of (data, rest) \<Rightarrow> (field_of l # data, rest))"

fun unclosed :: "string \<times> yaml_value \<Rightarrow> bool" where
  "unclosed (k, Str s) = (s \<noteq> [] \<and> hd s = CHR ''['' \<and> last s \<noteq> CHR '']'')"
| "unclosed (k, v) = False"

definition flat_matter :: "string \<Rightarrow> (metadata \<times> string) option" where
  "flat_matter content =
     (case lines_of content of
        [] \<Rightarrow> Some ([], content)
      | l # ls \<Rightarrow>
          if l = ''---'' \<and> ls \<noteq> []
          then (case read_fields ls of
                  (data, rest) \<Rightarrow>
                    if list_ex unclosed data then None
                    else Some (data, join ''\<newline>'' rest))
          else Some ([], content))"

definition shipped :: gray_matter where
  "shipped = \<lparr>matter = flat_matter, dump = yaml_block\<rparr>"

text \<open>
  A source tree with the first lines of three files that \<open>setup.sh\<close> creates, and one
  with the directory names \<open>gitbook-only\<close> and \<open>mcp-only\<close>.
\<close>

definition docs_source :: source_tree where
  "docs_source =
     (\<lambda>d. None)
       (''shared'' := Some [(''architecture.md'', ''# System Architecture\<newline>''),
                            (''notes.txt'', ''scratch'')],
        ''gitbook'' := Some [(''getting-started.md'', ''# Getting Started Tutorial\<newline>'')],
        ''mcp'' := Some [(''code-review.md'', ''# Code Review Checklist'')])"

definition renamed_source :: source_tree where
  "renamed_source =
     (\<lambda>d. None)
       (''shared'' := Some [(''architecture.md'', ''# System Architecture\<newline>'')],
        ''gitbook-only'' := Some [(''getting-started.md'', ''# Getting Started Tutorial\<newline>'')],
        ''mcp-only'' := Some [(''code-review.md'', ''# Code Review Checklist'')])"

text \<open>
  The first tree again, with a markdown file in \<open>gitbook\<close> that the manifest does not
  list.
\<close>

definition unlisted_source :: source_tree where
  "unlisted_source =
     docs_source
       (''gitbook'' := Some [(''getting-started.md'', ''# Getting Started Tutorial\<newline>''),
                             (''changelog.md'', ''# Changelog\<newline>'')])"

text \<open>
  A third source tree, in which a shared file carries front matter of its own and two
  names, one of them \<open>markdown-rules.md\<close>, are taken in both directories; and an
  output directory that holds a file left by an earlier run.
\<close>

definition draft_source :: source_tree where
  "draft_source =
     (\<lambda>d. None)
       (''shared'' := Some [(''notes.md'', ''---\<newline>title: Draft\<newline>---\<newline># Notes\<newline>''),
                            (''faq.md'', ''# Questions\<newline>''),
                            (''markdown-rules.md'', ''# Shared rules\<newline>'')],
        ''mcp'' := Some [(''markdown-rules.md'', ''# Team rules\<newline>''),
                         (''faq.md'', ''# Answers for the assistant\<newline>'')])"

text \<open>
  A source tree with a file whose front matter the reader rejects: the run of the
  metadata-target emitter on it ends in the exception.
\<close>

definition broken_source :: source_tree where
  "broken_source =
     (\<lambda>d. None)
       (''shared'' := Some [(''architecture.md'', ''# System Architecture\<newline>''),
                            (''draft.md'', ''---\<newline>globs: [src/**\<newline>---\<newline># Draft\<newline>'')])"

definition leftover :: out_tree where
  "leftover = [''old.md'' \<mapsto> ''# Old page\<newline>'']"

text \<open>
  What a run leaves under a path of its output directory, and what it prints, when it
  completes.
\<close>

definition written :: "error + build \<Rightarrow> string \<rightharpoonup> string" where
  "written r p = (case r of Inl e \<Rightarrow> None | Inr (out, lg) \<Rightarrow> out p)"

definition printed :: "error + build \<Rightarrow> msg list" where
  "printed r = (case r of Inl e \<Rightarrow> [] | Inr (out, lg) \<Rightarrow> lg)"

text \<open>
  Three saves in quick succession, and a save that arrives while the build started by
  an earlier one is still running.
\<close>

definition three_saves :: "(nat \<times> fs_event) list" where
  "three_saves = [(0, SourceEvent (Some ''shared/api.md'')),
                  (1500, SourceEvent (Some ''shared/api.md'')),
                  (3000, ConfigEvent (Some ''mcp-config.json''))]"

definition overlapped_save :: "(nat \<times> input) list" where
  "overlapped_save = [(0, Fs (SourceEvent (Some ''shared/api.md''))),
                      (2500, Fs (SourceEvent (Some ''shared/api.md''))),
                      (3000, Close 0)]"

text \<open>
  Modification times of a source tree edited after the last build: the text file is
  the newest file of the source tree, yet only markdown files count.
\<close>

definition source_stats :: "file_stat list" where
  "source_stats = [\<lparr>path = ''docs/source/shared/architecture.md'', mtime = 200\<rparr>,
                   \<lparr>path = ''docs/source/mcp/code-review.md'', mtime = 150\<rparr>,
                   \<lparr>path = ''docs/source/shared/notes.txt'', mtime = 900\<rparr>]"

definition build_stats :: "file_stat list" where
  "build_stats = [\<lparr>path = ''docs/build/mcp/architecture.md'', mtime = 100\<rparr>,
                  \<lparr>path = ''docs/build/mcp/markdown-rules.md'', mtime = 180\<rparr>]"

section \<open>Properties of the rebuild trigger\<close>

lemma handle_keeps_no_timer_while_building:
  assumes "isBuilding w \<longrightarrow> buildTimeout w = None"
  shows "isBuilding (handle i w) \<longrightarrow> buildTimeout (handle i w) = None"
proof -
  obtain now inp where i: "i = (now, inp)" by (cases i)
  show ?thesis unfolding i using assms
    by (cases inp)
       (auto simp: on_fs_event_def triggerBuild_def elapse_def timer_callback_def
          on_close_def on_error_def split: option.splits)
qed

lemma fold_keeps_no_timer_while_building:
  "(isBuilding w \<longrightarrow> buildTimeout w = None) \<Longrightarrow>
   (isBuilding (fold handle inputs w) \<longrightarrow> buildTimeout (fold handle inputs w) = None)"
proof (induction inputs arbitrary: w)
  case Nil
  then show ?case by simp
next
  case (Cons i inputs)
  from handle_keeps_no_timer_while_building[OF Cons.prems] Cons.IH[of "handle i w"]
  show ?case by simp
qed

lemma building_no_timer:
  "isBuilding (run inputs idle) \<Longrightarrow> buildTimeout (run inputs idle) = None"
  using fold_keeps_no_timer_while_building[of idle inputs] by (simp add: run_def idle_def)

lemma run_burst:
  "burst ((t, e) # rest) \<Longrightarrow> \<not> isBuilding w \<Longrightarrow>
   (\<forall>d. buildTimeout w = Some d \<longrightarrow> t < d) \<Longrightarrow>
     buildTimeout (run (fs_inputs ((t, e) # rest)) w) = Some (fst (last ((t, e) # rest)) + 2000)
   \<and> \<not> isBuilding (run (fs_inputs ((t, e) # rest)) w)
   \<and> spawned (run (fs_inputs ((t, e) # rest)) w) = spawned w"
proof (induction rest arbitrary: t e w)
  case Nil
  then show ?case
    by (auto simp: run_def fs_inputs_def on_fs_event_def triggerBuild_def elapse_def
        split: option.splits)
next
  case (Cons p rest)
  obtain u e' where p: "p = (u, e')" by (cases p)
  let ?w = "handle (t, Fs e) w"
  from Cons.prems have q: "qualifying e" "t \<le> u" "u < t + 2000" "burst ((u, e') # rest)"
    by (simp_all add: p)
  have w1: "\<not> isBuilding ?w" "buildTimeout ?w = Some (t + 2000)" "spawned ?w = spawned w"
    using Cons.prems(2,3) q(1)
    by (auto simp: on_fs_event_def triggerBuild_def elapse_def split: option.splits)
  have "\<forall>d. buildTimeout ?w = Some d \<longrightarrow> u < d" using w1 q by simp
  from Cons.IH[OF q(4) w1(1) this] w1(3) show ?case
    by (simp add: p run_def fs_inputs_def)
qed

lemma elapse_pending:
  "buildTimeout w = Some d \<Longrightarrow>
     elapse now w = (if d \<le> now then timer_callback w else w)"
  by (simp add: elapse_def)

text \<open>
  C7. A burst of one or more qualifying events, each less than 2000 ms after the one
  before, starts no build before the quiet period after its last event has passed and
  exactly one once it has. When that build has closed, one further qualifying event
  starts exactly one more build, again 2000 ms after it arrived.
\<close>

theorem debounce_coalescing:
  assumes "evs \<noteq> []" and "burst evs"
  shows "(\<forall>now. now < fst (last evs) + 2000 \<longrightarrow>
            spawned (elapse now (run (fs_inputs evs) idle)) = 0)
       \<and> (\<forall>now. fst (last evs) + 2000 \<le> now \<longrightarrow>
            spawned (elapse now (run (fs_inputs evs) idle)) = 1)
       \<and> (\<forall>u code v e now. fst (last evs) + 2000 \<le> u \<and> u \<le> v \<and> qualifying e \<longrightarrow>
            spawned (run (fs_inputs evs @ [(u, Close code), (v, Fs e)]) idle) = 1
          \<and> (v + 2000 \<le> now \<longrightarrow>
               spawned (elapse now
                 (run (fs_inputs evs @ [(u, Close code), (v, Fs e)]) idle)) = 2))"
proof -
  obtain t e rest where evs: "evs = (t, e) # rest"
    using assms(1) by (cases evs) auto
  let ?w = "run (fs_inputs evs) idle"
  let ?d = "fst (last evs) + 2000"
  have w: "buildTimeout ?w = Some ?d" "\<not> isBuilding ?w" "spawned ?w = 0"
    using run_burst[of t e rest idle] assms(2) by (simp_all add: evs idle_def)
  have a: "\<forall>now. now < ?d \<longrightarrow> spawned (elapse now ?w) = 0"
    using w by (simp add: elapse_pending)
  have b: "\<forall>now. ?d \<le> now \<longrightarrow> spawned (elapse now ?w) = 1"
    using w by (simp add: elapse_pending timer_callback_def)
  have c: "spawned (run (fs_inputs evs @ [(u, Close code), (v, Fs e')]) idle) = 1
          \<and> (v + 2000 \<le> now \<longrightarrow>
               spawned (elapse now
                 (run (fs_inputs evs @ [(u, Close code), (v, Fs e')]) idle)) = 2)"
    if h: "?d \<le> u" "u \<le> v" "qualifying e'" for u code v e' now
  proof -
    let ?w1 = "handle (u, Close code) ?w"
    have w1: "buildTimeout ?w1 = None" "\<not> isBuilding ?w1" "spawned ?w1 = 1"
      using w h(1) by (simp_all add: elapse_pending timer_callback_def on_close_def)
    let ?w2 = "handle (v, Fs e') ?w1"
    have w2: "buildTimeout ?w2 = Some (v + 2000)" "\<not> isBuilding ?w2" "spawned ?w2 = 1"
      using w1 h(3) by (simp_all add: elapse_def on_fs_event_def triggerBuild_def)
    have r: "run (fs_inputs evs @ [(u, Close code), (v, Fs e')]) idle = ?w2"
      by (simp add: run_def)
    show ?thesis unfolding r using w2 by (simp add: elapse_pending timer_callback_def)
  qed
  show ?thesis using a b c by blast
qed

theorem debounce_coalescing_witness:
  "three_saves \<noteq> [] \<and> burst three_saves
   \<and> spawned (elapse 4999 (run (fs_inputs three_saves) idle)) = 0
   \<and> spawned (elapse 5000 (run (fs_inputs three_saves) idle)) = 1
   \<and> spawned (run (fs_inputs three_saves
        @ [(6000, Close 0), (7000, Fs (SourceEvent (Some ''mcp/notes.md'')))]) idle) = 1
   \<and> spawned (elapse 9000 (run (fs_inputs three_saves
        @ [(6000, Close 0), (7000, Fs (SourceEvent (Some ''mcp/notes.md'')))]) idle)) = 2"
proof -
  have ne: "three_saves \<noteq> []" by (simp add: three_saves_def)
  have b: "burst three_saves" by (simp add: three_saves_def endsWith_def)
  have l: "fst (last three_saves) = 3000" by (simp add: three_saves_def)
  have q: "qualifying (SourceEvent (Some ''mcp/notes.md''))" by (simp add: endsWith_def)
  from debounce_coalescing[OF ne b] have
    "(\<forall>now. now < 5000 \<longrightarrow> spawned (elapse now (run (fs_inputs three_saves) idle)) = 0)"
    "(\<forall>now. 5000 \<le> now \<longrightarrow> spawned (elapse now (run (fs_inputs three_saves) idle)) = 1)"
    "(\<forall>u code v e now. 5000 \<le> u \<and> u \<le> v \<and> qualifying e \<longrightarrow>
            spawned (run (fs_inputs three_saves @ [(u, Close code), (v, Fs e)]) idle) = 1
          \<and> (v + 2000 \<le> now \<longrightarrow>
               spawned (elapse now
                 (run (fs_inputs three_saves @ [(u, Close code), (v, Fs e)]) idle)) = 2))"
    unfolding l by simp_all
  then show ?thesis using ne b q by simp
qed

text \<open>
  C2, as the specification states it, fails. A qualifying event arrives at 2500 ms,
  while the build that the timer started at 2000 ms is running; the build closes at
  3000 ms. No timer is pending then, and no second build is ever started.
\<close>

theorem event_during_build_counterexample:
  "isBuilding (elapse 2500 (run (take 1 overlapped_save) idle))
   \<and> qualifying (SourceEvent (Some ''shared/api.md''))
   \<and> \<not> isBuilding (run overlapped_save idle)
   \<and> buildTimeout (run overlapped_save idle) = None
   \<and> spawned (run overlapped_save idle) = 1
   \<and> spawned (elapse 1000000 (run overlapped_save idle)) = 1"
  by (simp add: overlapped_save_def run_def idle_def elapse_def on_fs_event_def
      triggerBuild_def timer_callback_def on_close_def endsWith_def)

lemma elapse_keeps_no_timer_while_building:
  assumes "isBuilding w \<longrightarrow> buildTimeout w = None"
  shows "isBuilding (elapse now w) \<longrightarrow> buildTimeout (elapse now w) = None"
  using assms by (auto simp: elapse_def timer_callback_def split: option.splits)

lemma building_after_elapse_no_timer:
  "isBuilding (elapse now (run inputs idle)) \<Longrightarrow>
     buildTimeout (elapse now (run inputs idle)) = None"
  using elapse_keeps_no_timer_while_building[of "run inputs idle" now]
    fold_keeps_no_timer_while_building[of idle inputs]
  by (simp add: run_def idle_def)

text \<open>
  C2, amended. A qualifying event that arrives while a build is running, whether the
  timer started that build long before or at the very moment the event is handled, is
  skipped: it arms no timer, leaves the flag raised and only prints the line that
  says so. When the build closes, the trigger is idle with no timer pending, and no
  build starts however long one waits: a new event is needed.
\<close>

theorem event_during_build_is_skipped:
  assumes "isBuilding (elapse t (run inputs idle))" and "qualifying e"
  shows "buildTimeout (run (inputs @ [(t, Fs e)]) idle) = None
       \<and> isBuilding (run (inputs @ [(t, Fs e)]) idle)
       \<and> spawned (run (inputs @ [(t, Fs e)]) idle) = spawned (elapse t (run inputs idle))
       \<and> last (console (run (inputs @ [(t, Fs e)]) idle))
           = ''Build already in progress, skipping...''
       \<and> buildTimeout (run (inputs @ [(t, Fs e), (u, Close code)]) idle) = None
       \<and> \<not> isBuilding (run (inputs @ [(t, Fs e), (u, Close code)]) idle)
       \<and> (\<forall>now. spawned (elapse now (run (inputs @ [(t, Fs e), (u, Close code)]) idle))
                  = spawned (elapse t (run inputs idle)))"
proof -
  let ?w = "elapse t (run inputs idle)"
  have nt: "buildTimeout ?w = None" using assms(1) by (rule building_after_elapse_no_timer)
  let ?w1 = "on_fs_event t e ?w"
  have w1: "buildTimeout ?w1 = None" "isBuilding ?w1" "spawned ?w1 = spawned ?w"
    "last (console ?w1) = ''Build already in progress, skipping...''"
    using nt assms by (simp_all add: on_fs_event_def triggerBuild_def)
  let ?w2 = "handle (u, Close code) ?w1"
  have w2: "buildTimeout ?w2 = None" "\<not> isBuilding ?w2" "spawned ?w2 = spawned ?w"
    using w1 by (simp_all add: elapse_def on_close_def)
  have r1: "run (inputs @ [(t, Fs e)]) idle = ?w1" by (simp add: run_def)
  have r2: "run (inputs @ [(t, Fs e), (u, Close code)]) idle = ?w2" by (simp add: run_def)
  show ?thesis unfolding r1 r2 using w1 w2 by (simp add: elapse_def)
qed

theorem event_during_build_is_skipped_witness:
  "\<not> isBuilding (run (take 1 overlapped_save) idle)
   \<and> isBuilding (elapse 2500 (run (take 1 overlapped_save) idle))
   \<and> qualifying (SourceEvent (Some ''shared/api.md''))
   \<and> isBuilding (run (take 1 overlapped_save
        @ [(2500, Fs (SourceEvent (Some ''shared/api.md'')))]) idle)
   \<and> buildTimeout (run (take 1 overlapped_save
        @ [(2500, Fs (SourceEvent (Some ''shared/api.md''))), (3000, Close 0)]) idle) = None
   \<and> spawned (elapse 1000000 (run (take 1 overlapped_save
        @ [(2500, Fs (SourceEvent (Some ''shared/api.md''))), (3000, Close 0)]) idle)) = 1"
proof -
  have n: "\<not> isBuilding (run (take 1 overlapped_save) idle)"
    by (simp add: overlapped_save_def run_def idle_def elapse_def on_fs_event_def
        triggerBuild_def endsWith_def)
  have b: "isBuilding (elapse 2500 (run (take 1 overlapped_save) idle))"
    by (simp add: overlapped_save_def run_def idle_def elapse_def on_fs_event_def
        triggerBuild_def timer_callback_def endsWith_def)
  have q: "qualifying (SourceEvent (Some ''shared/api.md''))" by (simp add: endsWith_def)
  have s: "spawned (elapse 2500 (run (take 1 overlapped_save) idle)) = 1"
    by (simp add: overlapped_save_def run_def idle_def elapse_def on_fs_event_def
        triggerBuild_def timer_callback_def endsWith_def)
  from event_during_build_is_skipped[OF b q, of 3000 0] show ?thesis
    using n b q s by simp
qed

section \<open>Properties of the staleness check\<close>

lemma sorted_last_Max:
  fixes ys :: "nat list"
  assumes "sorted ys" and "ys \<noteq> []"
  shows "last ys = Max (set ys)"
proof -
  have ys: "ys = butlast ys @ [last ys]" using assms(2) by simp
  have "sorted (butlast ys @ [last ys])" using assms(1) ys by simp
  then have le: "\<forall>y \<in> set (butlast ys). y \<le> last ys"
    by (simp add: sorted_append)
  have "\<And>y. y \<in> set ys \<Longrightarrow> y \<le> last ys"
  proof -
    fix y assume "y \<in> set ys"
    then have "y \<in> set (butlast ys @ [last ys])" using ys by simp
    then show "y \<le> last ys" using le by auto
  qed
  then show ?thesis using assms(2) by (intro Max_eqI[symmetric]) auto
qed

lemma last_sort_key_Max:
  assumes "xs \<noteq> []"
  shows "mtime (last (sort_key mtime xs)) = Max (mtime ` set xs)"
proof -
  let ?zs = "sort_key mtime xs"
  have ne: "?zs \<noteq> []" using assms by (metis length_0_conv length_sort)
  have "mtime (last ?zs) = last (map mtime ?zs)" using ne by (simp add: last_map)
  also have "\<dots> = Max (set (map mtime ?zs))" using ne by (intro sorted_last_Max) simp_all
  also have "\<dots> = Max (mtime ` set xs)" by simp
  finally show ?thesis .
qed

lemma newest_None: "newest files = None \<longleftrightarrow> find_md files = []"
  by (auto simp: newest_def split: list.splits) (metis length_0_conv length_sort)+

lemma newest_Some:
  assumes "find_md files \<noteq> []"
  shows "\<exists>f. newest files = Some f \<and> mtime f = Max (mtime ` set (find_md files))"
proof -
  have ne: "sort_key mtime (find_md files) \<noteq> []"
    using assms by (metis length_0_conv length_sort)
  then have "newest files = Some (last (sort_key mtime (find_md files)))"
    by (simp add: newest_def split: list.splits)
  then show ?thesis using last_sort_key_Max[OF assms] by simp
qed

text \<open>
  For a source tree and an output tree that both exist, the check reports stale
  exactly when the force flag is given, or the newest markdown file of the source tree
  is strictly newer than the newest markdown file of the output tree, or the output
  tree has no markdown file while the source tree has one. When one of the two
  directories does not exist, the comparison is not made and only the force flag
  reports stale.
\<close>

lemma stale_on_existing_trees:
  "(stale args (Some src) (Some out) \<longleftrightarrow>
      force args
    \<or> (find_md src \<noteq> [] \<and> find_md out \<noteq> []
       \<and> Max (mtime ` set (find_md out)) < Max (mtime ` set (find_md src)))
    \<or> (find_md out = [] \<and> find_md src \<noteq> []))
   \<and> stale (''--force'' # rest) any_src any_out
   \<and> (stale args None any_out \<longleftrightarrow> force args)
   \<and> (stale args any_src None \<longleftrightarrow> force args)"
proof -
  have f: "stale (''--force'' # rest) any_src any_out" by (simp add: stale_def)
  have n: "(stale args None any_out \<longleftrightarrow> force args)" "(stale args any_src None \<longleftrightarrow> force args)"
    by (simp_all add: stale_def SOURCE_NEWER_def split: option.splits)
  have "SOURCE_NEWER (Some src) (Some out) \<longleftrightarrow>
      (find_md src \<noteq> [] \<and> find_md out \<noteq> []
       \<and> Max (mtime ` set (find_md out)) < Max (mtime ` set (find_md src)))
    \<or> (find_md out = [] \<and> find_md src \<noteq> [])"
  proof (cases "find_md src = []")
    case True
    then have "newest src = None" by (simp add: newest_None)
    then show ?thesis using True by (simp add: SOURCE_NEWER_def)
  next
    case s: False
    from newest_Some[OF s] obtain ns where ns: "newest src = Some ns"
      "mtime ns = Max (mtime ` set (find_md src))" by blast
    show ?thesis
    proof (cases "find_md out = []")
      case True
      then have "newest out = None" by (simp add: newest_None)
      then show ?thesis using True s ns by (simp add: SOURCE_NEWER_def)
    next
      case b: False
      from newest_Some[OF b] obtain nb where nb: "newest out = Some nb"
        "mtime nb = Max (mtime ` set (find_md out))" by blast
      show ?thesis using s b ns nb by (simp add: SOURCE_NEWER_def nt_def)
    qed
  qed
  then show ?thesis using f n by (simp add: stale_def disj_commute)
qed

text \<open>
  C5 does not hold of the script when the output directory is missing. The source
  tree has markdown files and the output tree has none, so the claim calls for stale;
  the test \<open>[ -d "docs/build/mcp" ]\<close> keeps the script from the branch that sets
  \<open>SOURCE_NEWER\<close> for a source without a build, and the hook reports that the build
  files are up to date. With the output directory present and empty the same source
  tree is reported stale. A text file newer than every build file does not count.
\<close>

theorem missing_build_directory_reported_fresh:
  "find_md source_stats \<noteq> []
   \<and> \<not> force []
   \<and> \<not> stale [] (Some source_stats) None
   \<and> mcp_build_hook True [] (Some source_stats) None = UpToDate
   \<and> stale [] (Some source_stats) (Some [])
   \<and> mcp_build_hook True [] (Some source_stats) (Some []) = Rebuild
   \<and> \<not> stale [] (Some source_stats)
         (Some [\<lparr>path = ''docs/build/mcp/architecture.md'', mtime = 500\<rparr>])"
proof -
  have s: "find_md source_stats = [\<lparr>path = ''docs/source/shared/architecture.md'', mtime = 200\<rparr>,
                   \<lparr>path = ''docs/source/mcp/code-review.md'', mtime = 150\<rparr>]"
    by (simp add: source_stats_def find_md_def endsWith_def)
  have n: "newest source_stats = Some \<lparr>path = ''docs/source/shared/architecture.md'', mtime = 200\<rparr>"
    by (simp add: newest_def s)
  have e: "newest [] = None" by (simp add: newest_def find_md_def)
  have b: "newest [\<lparr>path = ''docs/build/mcp/architecture.md'', mtime = 500\<rparr>]
           = Some \<lparr>path = ''docs/build/mcp/architecture.md'', mtime = 500\<rparr>"
    by (simp add: newest_def find_md_def endsWith_def)
  show ?thesis
    by (simp add: s mcp_build_hook_def stale_def SOURCE_NEWER_def n e b nt_def)
qed

section \<open>Properties of the two emitters\<close>

text \<open>
  What the loops compute, in closed form; the claims follow below.
\<close>

lemma stringify_None: "stringify gm content data = None \<longleftrightarrow> matter gm content = None"
  by (simp add: stringify_def Let_def split: option.splits)

lemma emitted_in_dir:
  assumes "endsWith n ''.md''" and "n \<in> fst ` set d"
  shows "\<exists>content. readFile d n = Some content
       \<and> emitted gm c cat d n = stringify gm content (frontmatter c (configKey cat n))"
proof -
  from assms(2) obtain content where "map_of d n = Some content"
    by (metis domD dom_map_of_conv_image_fst)
  then show ?thesis using assms(1) by (simp add: emitted_def readFile_def)
qed

lemma stringify_Some_iff:
  "(\<exists>y. stringify gm content data = Some y) \<longleftrightarrow> (\<exists>a b. matter gm content = Some (a, b))"
  by (auto simp: stringify_def Let_def split: option.splits)

lemma emitted_None:
  assumes "name \<notin> fst ` set d \<or> \<not> endsWith name ''.md''"
  shows "emitted gm c cat d name = None"
proof (cases "endsWith name ''.md''")
  case False
  then show ?thesis by (simp add: emitted_def)
next
  case True
  then have "map_of d name = None" using assms by (simp add: map_of_eq_None_iff)
  then show ?thesis by (simp add: emitted_def readFile_def)
qed

lemma parses_iff:
  "parses gm d \<longleftrightarrow>
     (\<forall>n \<in> set (readdir d). endsWith n ''.md'' \<longrightarrow> emitted gm c cat d n \<noteq> None)"
proof -
  have "(case readFile d n of None \<Rightarrow> False | Some content \<Rightarrow> matter gm content \<noteq> None)
        \<longleftrightarrow> emitted gm c cat d n \<noteq> None" if "endsWith n ''.md''" for n
    using that stringify_Some_iff[of gm _ "frontmatter c (configKey cat n)"]
    by (auto simp: emitted_def split: option.splits)
  then show ?thesis by (auto simp: parses_def list_all_iff)
qed

lemma process_files_closed:
  assumes "set names \<subseteq> fst ` set d"
    and "\<forall>n \<in> set names. endsWith n ''.md'' \<longrightarrow> emitted gm c cat d n \<noteq> None"
  shows "process_files gm c cat d names (out, lg) =
     Inr ((\<lambda>p. if p \<in> set names \<and> endsWith p ''.md'' then emitted gm c cat d p else out p),
          lg @ processed_lines cat names)"
  using assms
proof (induction names arbitrary: out lg)
  case Nil
  then show ?case by (simp add: processed_lines_def)
next
  case (Cons n names)
  then have sub: "set names \<subseteq> fst ` set d" and n: "n \<in> fst ` set d"
    and ok: "\<forall>m \<in> set names. endsWith m ''.md'' \<longrightarrow> emitted gm c cat d m \<noteq> None"
    by auto
  show ?case
  proof (cases "endsWith n ''.md''")
    case False
    then have "process_files gm c cat d (n # names) (out, lg)
               = process_files gm c cat d names (out, lg)"
      by simp
    also have "\<dots> = Inr ((\<lambda>p. if p \<in> set names \<and> endsWith p ''.md''
                              then emitted gm c cat d p else out p),
          lg @ processed_lines cat names)" by (rule Cons.IH[OF sub ok])
    also have "(\<lambda>p. if p \<in> set names \<and> endsWith p ''.md'' then emitted gm c cat d p else out p)
       = (\<lambda>p. if p \<in> set (n # names) \<and> endsWith p ''.md'' then emitted gm c cat d p else out p)"
      using False by auto
    also have "processed_lines cat names = processed_lines cat (n # names)"
      using False by (simp add: processed_lines_def)
    finally show ?thesis .
  next
    case True
    from emitted_in_dir[OF True n] obtain content where c: "readFile d n = Some content"
      and e: "emitted gm c cat d n = stringify gm content (frontmatter c (configKey cat n))"
      by blast
    from Cons.prems(2) True obtain v where v: "emitted gm c cat d n = Some v" by auto
    have sv: "stringify gm content (frontmatter c (configKey cat n)) = Some v"
      using e v by simp
    have "process_files gm c cat d (n # names) (out, lg)
          = process_files gm c cat d names (out(n \<mapsto> v), lg @ [processed_line cat n])"
      using True c by (simp add: sv)
    also have "\<dots> = Inr ((\<lambda>p. if p \<in> set names \<and> endsWith p ''.md''
                              then emitted gm c cat d p else (out(n \<mapsto> v)) p),
          (lg @ [processed_line cat n]) @ processed_lines cat names)"
      by (rule Cons.IH[OF sub ok])
    also have "(\<lambda>p. if p \<in> set names \<and> endsWith p ''.md''
                     then emitted gm c cat d p else (out(n \<mapsto> v)) p)
       = (\<lambda>p. if p \<in> set (n # names) \<and> endsWith p ''.md'' then emitted gm c cat d p else out p)"
      using True v by auto
    also have "(lg @ [processed_line cat n]) @ processed_lines cat names
               = lg @ processed_lines cat (n # names)"
      using True by (simp add: processed_lines_def)
    finally show ?thesis .
  qed
qed

lemma process_files_fails:
  assumes "set names \<subseteq> fst ` set d"
    and "\<exists>n \<in> set names. endsWith n ''.md'' \<and> emitted gm c cat d n = None"
  shows "\<exists>e. process_files gm c cat d names (out, lg) = Inl e"
  using assms
proof (induction names arbitrary: out lg)
  case Nil
  then show ?case by simp
next
  case (Cons n names)
  then have sub: "set names \<subseteq> fst ` set d" and n: "n \<in> fst ` set d" by auto
  show ?case
  proof (cases "endsWith n ''.md''")
    case False
    then have "\<exists>m \<in> set names. endsWith m ''.md'' \<and> emitted gm c cat d m = None"
      using Cons.prems(2) by auto
    from Cons.IH[OF sub this, of out lg] show ?thesis using False by simp
  next
    case True
    from emitted_in_dir[OF True n] obtain content where c: "readFile d n = Some content"
      and e: "emitted gm c cat d n = stringify gm content (frontmatter c (configKey cat n))"
      by blast
    show ?thesis
    proof (cases "emitted gm c cat d n")
      case None
      then show ?thesis using True c e by simp
    next
      case (Some v)
      then have "\<exists>m \<in> set names. endsWith m ''.md'' \<and> emitted gm c cat d m = None"
        using Cons.prems(2) by auto
      have sv: "stringify gm content (frontmatter c (configKey cat n)) = Some v"
        using e Some by simp
      have "\<exists>e. process_files gm c cat d names
                  (out(n \<mapsto> v), lg @ [processed_line cat n]) = Inl e"
        by (rule Cons.IH[OF sub
              \<open>\<exists>m \<in> set names. endsWith m ''.md'' \<and> emitted gm c cat d m = None\<close>])
      then show ?thesis using True c by (simp add: sv)
    qed
  qed
qed

lemma process_dir:
  assumes "parses gm d"
  shows "process_files gm c cat d (readdir d) (out, lg) =
     Inr (out ++ emitted gm c cat d, lg @ processed_lines cat (readdir d))"
proof -
  have "(\<lambda>p. if p \<in> set (readdir d) \<and> endsWith p ''.md'' then emitted gm c cat d p else out p)
        = out ++ emitted gm c cat d"
  proof
    fix p
    show "(if p \<in> set (readdir d) \<and> endsWith p ''.md'' then emitted gm c cat d p else out p)
          = (out ++ emitted gm c cat d) p"
    proof (cases "p \<in> set (readdir d) \<and> endsWith p ''.md''")
      case True
      then obtain v where "emitted gm c cat d p = Some v"
        using assms parses_iff[of gm d c cat] by auto
      then show ?thesis using True by (simp add: map_add_def)
    next
      case False
      then have "emitted gm c cat d p = None"
        by (intro emitted_None) (auto simp: readdir_def)
      then show ?thesis using False by (auto simp: map_add_def)
    qed
  qed
  then show ?thesis
    using process_files_closed[of "readdir d" d gm c cat out lg] assms parses_iff[of gm d c cat]
    by (simp add: readdir_def)
qed

lemma process_dir_fails:
  assumes "\<not> parses gm d"
  shows "\<exists>e. process_files gm c cat d (readdir d) (out, lg) = Inl e"
  using process_files_fails[of "readdir d" d gm c cat out lg] assms parses_iff[of gm d c cat]
  by (auto simp: readdir_def)

lemma buildMCP_closed:
  assumes "readable gm src"
  shows "buildMCP gm (Some c) src out =
     Inr (((case src ''shared'' of None \<Rightarrow> Map.empty | Some d \<Rightarrow> emitted gm c ''shared'' d)
           ++ (case src ''mcp'' of None \<Rightarrow> Map.empty | Some d \<Rightarrow> emitted gm c ''mcp'' d))
            (''markdown-rules.md'' \<mapsto> usageContent),
          [Log ''Building MCP documentation...'']
          @ (case src ''shared'' of None \<Rightarrow> [Warn ''Shared directory not found'']
             | Some d \<Rightarrow> processed_lines ''shared'' (readdir d))
          @ (case src ''mcp'' of None \<Rightarrow> [Warn ''MCP directory not found'']
             | Some d \<Rightarrow> processed_lines ''mcp'' (readdir d))
          @ [Log ''Generated markdown-rules.md'', Log ''MCP documentation built successfully!'',
             Log ''Output directory: docs/build/mcp''])"
  using assms
  by (auto simp: readable_def buildMCP_def emptyDir_def process_dir split: option.splits)

lemma buildMCP_fails:
  assumes "\<not> readable gm src"
  shows "\<exists>e. buildMCP gm (Some c) src out = Inl e"
proof (cases "case src ''shared'' of None \<Rightarrow> True | Some d \<Rightarrow> parses gm d")
  case False
  then obtain d where d: "src ''shared'' = Some d" "\<not> parses gm d"
    by (auto split: option.splits)
  from process_dir_fails[OF d(2), of c "''shared''" Map.empty "[Log ''Building MCP documentation...'']"]
  show ?thesis using d(1) by (auto simp: buildMCP_def emptyDir_def)
next
  case True
  then have "\<not> (case src ''mcp'' of None \<Rightarrow> True | Some d \<Rightarrow> parses gm d)"
    using assms by (simp add: readable_def)
  then obtain d where d: "src ''mcp'' = Some d" "\<not> parses gm d"
    by (auto split: option.splits)
  obtain st1 where s1: "processSharedFiles gm c src
      (emptyDir out, [Log ''Building MCP documentation...'']) = Inr st1"
    using True by (auto simp: emptyDir_def process_dir split: option.splits)
  obtain o1 l1 where st1: "st1 = (o1, l1)" by (cases st1)
  from process_dir_fails[OF d(2), of c "''mcp''" o1 l1]
  show ?thesis using d(1) s1 by (auto simp: buildMCP_def st1)
qed

lemma buildMCP_completes_iff:
  "(\<exists>out' lg. buildMCP gm (Some c) src out = Inr (out', lg)) \<longleftrightarrow> readable gm src"
proof
  assume "\<exists>out' lg. buildMCP gm (Some c) src out = Inr (out', lg)"
  then show "readable gm src" using buildMCP_fails[of gm src c out] by force
next
  assume "readable gm src"
  from buildMCP_closed[OF this, of c out] show "\<exists>out' lg. buildMCP gm (Some c) src out = Inr (out', lg)"
    by blast
qed

lemma assign_Nil_distinct: "distinct (map fst data) \<Longrightarrow> assign [] data = data"
proof -
  have g: "distinct (map fst (acc @ data)) \<Longrightarrow>
        fold (\<lambda>(k, v). AList.update k v) data acc = acc @ data" for acc :: metadata
  proof (induction data arbitrary: acc)
    case Nil
    then show ?case by simp
  next
    case (Cons p data)
    obtain k v where p: "p = (k, v)" by (cases p)
    from Cons.prems have k: "k \<notin> fst ` set acc" by (auto simp: p)
    then have u: "AList.update k v acc = acc @ [(k, v)]"
      by (induction acc) auto
    have "distinct (map fst ((acc @ [(k, v)]) @ data))" using Cons.prems by (simp add: p)
    from Cons.IH[OF this] show ?case by (simp add: p u)
  qed
  assume "distinct (map fst data)"
  then show ?thesis using g[of "[]"] by (simp add: assign_def)
qed

lemma stringify_plain:
  assumes "matter gm content = Some ([], body)" and "distinct (map fst data)"
    and "dump gm data \<noteq> ''{}''"
  shows "stringify gm content data
         = Some (''---\<newline>'' @ newline (dump gm data) @ ''---\<newline>'' @ newline body)"
  using assms by (simp add: stringify_def assign_Nil_distinct newline_def)

lemma process_one:
  assumes "readFile d name = Some content" and "endsWith name ''.md''"
  shows "process_files gm c category d [name] (out, lg)
         = (case stringify gm content (frontmatter c (configKey category name)) of
              None \<Rightarrow> Inl (ParseError name)
            | Some fileWithFrontmatter \<Rightarrow>
                Inr (out(name \<mapsto> fileWithFrontmatter), lg @ [processed_line category name]))"
  using assms by (simp split: option.splits)

lemma usage_at_17: "hd (drop 17 usageContent) = CHR 0x22"
  by (simp add: usageContent_def usage_lines_def)

lemma written_buildMCP:
  assumes "readable gm src"
  shows "written (buildMCP gm (Some c) src out) =
     ((case src ''shared'' of None \<Rightarrow> Map.empty | Some d \<Rightarrow> emitted gm c ''shared'' d)
           ++ (case src ''mcp'' of None \<Rightarrow> Map.empty | Some d \<Rightarrow> emitted gm c ''mcp'' d))
            (''markdown-rules.md'' \<mapsto> usageContent)"
  by (rule ext) (simp add: written_def buildMCP_closed[OF assms])


lemma printed_buildMCP:
  assumes "readable gm src"
  shows "printed (buildMCP gm (Some c) src out) =
          [Log ''Building MCP documentation...'']
          @ (case src ''shared'' of None \<Rightarrow> [Warn ''Shared directory not found'']
             | Some d \<Rightarrow> processed_lines ''shared'' (readdir d))
          @ (case src ''mcp'' of None \<Rightarrow> [Warn ''MCP directory not found'']
             | Some d \<Rightarrow> processed_lines ''mcp'' (readdir d))
          @ [Log ''Generated markdown-rules.md'', Log ''MCP documentation built successfully!'',
             Log ''Output directory: docs/build/mcp'']"
  by (simp add: printed_def buildMCP_closed[OF assms])

lemma dom_emitted:
  assumes "parses gm d"
  shows "dom (emitted gm c cat d) = {name \<in> set (readdir d). endsWith name ''.md''}"
proof (rule set_eqI)
  fix p
  show "p \<in> dom (emitted gm c cat d) \<longleftrightarrow> p \<in> {name \<in> set (readdir d). endsWith name ''.md''}"
  proof (cases "p \<in> set (readdir d) \<and> endsWith p ''.md''")
    case True
    then show ?thesis using assms parses_iff[of gm d c cat] by auto
  next
    case False
    then have "emitted gm c cat d p = None" by (intro emitted_None) (auto simp: readdir_def)
    then show ?thesis using False by auto
  qed
qed

lemma dom_written_buildMCP:
  assumes "readable gm src"
  shows "dom (written (buildMCP gm (Some c) src out))
     = insert ''markdown-rules.md'' (md_files src ''shared'' \<union> md_files src ''mcp'')"
proof -
  have s: "dom (case src ''shared'' of None \<Rightarrow> Map.empty | Some d \<Rightarrow> emitted gm c ''shared'' d)
           = md_files src ''shared''"
    using assms by (auto simp: readable_def md_files_def dom_emitted split: option.splits)
  have m: "dom (case src ''mcp'' of None \<Rightarrow> Map.empty | Some d \<Rightarrow> emitted gm c ''mcp'' d)
           = md_files src ''mcp''"
    using assms by (auto simp: readable_def md_files_def dom_emitted split: option.splits)
  show ?thesis unfolding written_buildMCP[OF assms] using s m by auto
qed

lemma no_warn_processed: "\<forall>m \<in> set (processed_lines cat names). \<forall>t. m \<noteq> Warn t"
  by (auto simp: processed_lines_def processed_line_def)

lemma buildMCP_Inr:
  assumes "readable gm src"
  shows "buildMCP gm (Some c) src out
         = Inr (written (buildMCP gm (Some c) src out), printed (buildMCP gm (Some c) src out))"
proof -
  from buildMCP_closed[OF assms, of c out] obtain o1 l1 where
    b: "buildMCP gm (Some c) src out = Inr (o1, l1)" by blast
  have "written (Inr (o1, l1)) = o1" by (intro ext) (simp add: written_def)
  then show ?thesis by (simp add: b printed_def)
qed

lemma copy_dir_add: "copy_dir d dest out = out ++ copy_dir d dest Map.empty"
  by (simp add: copy_dir_def)

lemma copy_add: "copy n dp out = out ++ copy n dp Map.empty"
proof (cases dp)
  case None
  then show ?thesis by simp
next
  case (Some comps)
  show ?thesis
  proof (cases n)
    case (File content)
    then show ?thesis using Some by (auto simp: map_add_def)
  next
    case (Directory d)
    then show ?thesis using Some copy_dir_add[of d "join ''/'' comps" out] by simp
  qed
qed

lemma copy_item_eq:
  "copy_item src i st = (fst st ++ copied src i, snd st @ [copy_line src i])"
proof (cases st)
  case (Pair out lg)
  show ?thesis
  proof (cases "source_file src (sourceDir i) (item_file i)")
    case None
    then show ?thesis using Pair by (simp add: copied_def)
  next
    case (Some n)
    then show ?thesis using Pair copy_add[of n "destPath i" out] by (simp add: copied_def)
  qed
qed

lemma snd_fold_copy_item:
  "snd (fold (copy_item src) items st) = snd st @ map (copy_line src) items"
  by (induction items arbitrary: st) (simp_all add: copy_item_eq)

lemma fst_fold_copy_item_other:
  "p \<notin> (\<Union>i \<in> set items. dom (copied src i))
     \<Longrightarrow> fst (fold (copy_item src) items st) p = fst st p"
proof (induction items arbitrary: st)
  case Nil
  then show ?case by simp
next
  case (Cons i items)
  have "p \<notin> (\<Union>j \<in> set items. dom (copied src j))" using Cons.prems by auto
  from Cons.IH[OF this, of "copy_item src i st"]
  have "fst (fold (copy_item src) (i # items) st) p = fst (copy_item src i st) p" by simp
  also have "\<dots> = fst st p" using Cons.prems
    by (auto simp: copy_item_eq map_add_def split: option.splits)
  finally show ?case .
qed

lemma copy_dir_other:
  "p \<notin> under dest ` set (readdir d) \<Longrightarrow> copy_dir d dest out p = out p"
proof -
  assume a: "p \<notin> under dest ` set (readdir d)"
  have "p \<notin> fst ` set (map (\<lambda>(name, c). (under dest name, c)) d)"
    using a by (force simp: readdir_def)
  then have "map_of (map (\<lambda>(name, c). (under dest name, c)) d) p = None"
    by (simp add: map_of_eq_None_iff)
  then show ?thesis by (simp add: copy_dir_def map_add_def)
qed

lemma under_assets: "under ''assets'' name = ''assets/'' @ name"
  "under ''images'' name = ''images/'' @ name"
  by (simp_all add: under_def)

lemma copyAssets_other:
  assumes "p \<notin> asset_files src"
  shows "fst (copyAssets src st) p = fst st p"
proof -
  obtain out lg where st: "st = (out, lg)" by (cases st)
  have a: "copy_dir d ''assets'' t p = t p" if "src ''gitbook/assets'' = Some d" for d t
    using assms that by (intro copy_dir_other) (auto simp: asset_files_def under_assets)
  have b: "copy_dir d ''images'' t p = t p" if "src ''shared/images'' = Some d" for d t
    using assms that by (intro copy_dir_other) (auto simp: asset_files_def under_assets)
  show ?thesis unfolding st using a b by (auto split: option.splits)
qed

lemma copyAssets_printed:
  "\<exists>extra. snd (copyAssets src st) = snd st @ extra \<and> (\<forall>m \<in> set extra. \<forall>t. m \<noteq> Warn t)"
  by (cases st) (auto split: option.splits)

lemma buildGitBook_closed:
  "buildGitBook (Some c) today src out =
     Inr (fst (copyAssets src (copySourceFiles src c
            (generateSummary c (generateReadme c today
               (Map.empty, [Log ''Building GitBook documentation...'']))))),
          snd (copyAssets src (copySourceFiles src c
            (generateSummary c (generateReadme c today
               (Map.empty, [Log ''Building GitBook documentation...''])))))
          @ [Log ''GitBook documentation built successfully!'',
             Log ''Output directory: docs/build/gitbook''])"
  by (simp add: buildGitBook_def emptyDir_def split_beta Let_def
      del: generateReadme.simps generateSummary.simps copyAssets.simps)

lemma written_buildGitBook_other:
  assumes "p \<notin> copied_files src c" and "p \<notin> asset_files src"
  shows "written (buildGitBook (Some c) today src out) p =
           [''README.md'' \<mapsto> readmeContent c today, ''SUMMARY.md'' \<mapsto> summaryContent c] p"
proof -
  have "p \<notin> (\<Union>i \<in> set (config_structure c). dom (copied src i))"
    using assms(1) by (simp add: copied_files_def)
  from fst_fold_copy_item_other[OF this] copyAssets_other[OF assms(2)]
  show ?thesis
    by (simp add: written_def buildGitBook_closed copySourceFiles_def del: copyAssets.simps)
qed

lemma printed_buildGitBook:
  "\<exists>extra. printed (buildGitBook (Some c) today src out) =
      [Log ''Building GitBook documentation...'', Log ''Generated README.md'',
       Log ''Generated SUMMARY.md'']
      @ map (copy_line src) (config_structure c) @ extra"
  using copyAssets_printed[of src "copySourceFiles src c
            (generateSummary c (generateReadme c today
               (Map.empty, [Log ''Building GitBook documentation...''])))"]
  by (auto simp: printed_def buildGitBook_closed copySourceFiles_def snd_fold_copy_item
      simp del: copyAssets.simps)




















lemma sourceDir_cases: "sourceDir i = ''shared'' \<or> sourceDir i = ''gitbook''"
  by (simp add: sourceDir_def)

lemma copyAssets_cong:
  assumes "src ''gitbook/assets'' = src' ''gitbook/assets''"
    and "src ''shared/images'' = src' ''shared/images''"
  shows "copyAssets src st = copyAssets src' st"
  using assms by (cases st) simp


lemmas shipped_eval = stringify_def shipped_def flat_matter_def lines_of_def split_on_def
  field_of_def frontmatter_def mcp_config_json_def assign_def yaml_block_def newline_def
  configKey_def

lemmas path_eval = source_file_def stat_def path_join_def normalize_def split_on_def
  sourceDir_def readFile_def destPath_def copied_def under_def copy_dir_def

lemma docs_readable: "readable shipped docs_source"
  by (simp add: readable_def parses_def docs_source_def readdir_def readFile_def endsWith_def
      shipped_def flat_matter_def lines_of_def split_on_def)

lemma draft_readable: "readable shipped draft_source"
  by (simp add: readable_def parses_def draft_source_def readdir_def readFile_def endsWith_def
      shipped_def flat_matter_def lines_of_def split_on_def field_of_def)

lemma renamed_readable: "readable shipped renamed_source"
  by (simp add: readable_def parses_def renamed_source_def readdir_def readFile_def endsWith_def
      shipped_def flat_matter_def lines_of_def split_on_def)



lemma renamed_copied_files:
  "copied_files renamed_source gitbook_config_json = {''architecture.md''}"
  by (auto simp: copied_files_def gitbook_config_json_def renamed_source_def path_eval
      split: if_splits)

lemma renamed_no_assets: "asset_files renamed_source = {}"
  by (simp add: asset_files_def renamed_source_def)

lemma unlisted_copied_files:
  "copied_files unlisted_source gitbook_config_json = {''getting-started.md'', ''architecture.md''}"
  by (auto simp: copied_files_def gitbook_config_json_def unlisted_source_def docs_source_def
      path_eval split: if_splits)

lemma unlisted_no_assets: "asset_files unlisted_source = {}"
  by (simp add: asset_files_def unlisted_source_def docs_source_def)

lemma docs_md_files:
  "md_files docs_source ''shared'' = {''architecture.md''}"
  "md_files docs_source ''mcp'' = {''code-review.md''}"
  by (auto simp: md_files_def docs_source_def readdir_def endsWith_def)

lemma broken_source_unreadable: "\<not> readable shipped broken_source"
  by (simp add: readable_def parses_def broken_source_def readdir_def readFile_def endsWith_def
      shipped_def flat_matter_def lines_of_def split_on_def field_of_def)

lemma broken_source_aborts:
  "buildMCP shipped (Some mcp_config_json) broken_source out = Inl (ParseError ''draft.md'')"
proof -
  have a: "stringify shipped ''# System Architecture\<newline>'' data \<noteq> None" for data
    by (simp add: stringify_def shipped_def flat_matter_def lines_of_def split_on_def Let_def)
  have b: "stringify shipped ''---\<newline>globs: [src/**\<newline>---\<newline># Draft\<newline>'' data = None" for data
    by (simp add: stringify_def shipped_def flat_matter_def lines_of_def split_on_def field_of_def)
  from a[of "frontmatter mcp_config_json (configKey ''shared'' ''architecture.md'')"]
  obtain f where f: "stringify shipped ''# System Architecture\<newline>''
      (frontmatter mcp_config_json (configKey ''shared'' ''architecture.md'')) = Some f"
    by blast
  show ?thesis
    by (simp add: buildMCP_def emptyDir_def broken_source_def readdir_def readFile_def
        endsWith_def f b)
qed

subsection \<open>What the publishing emitter looks up\<close>

lemma split_on_plain: "sep \<notin> set s \<Longrightarrow> split_on sep s = [s]"
proof (induction s)
  case Nil
  show ?case by (simp add: split_on_def)
next
  case (Cons c s)
  then have "foldr (\<lambda>c ls. if c = sep then [] # ls
                    else (case ls of [] \<Rightarrow> [[c]] | l # rest \<Rightarrow> (c # l) # rest)) s [[]] = [s]"
    by (simp add: split_on_def)
  moreover have "c \<noteq> sep" using Cons.prems by auto
  ultimately show ?case by (simp add: split_on_def)
qed

lemma path_join_plain:
  assumes "CHR ''/'' \<notin> set d" and "d \<notin> {[], ''.'', ''..''}"
    and "CHR ''/'' \<notin> set name" and "name \<notin> {[], ''.'', ''..''}"
  shows "path_join [d, name] = [d, name]"
  using assms by (simp add: path_join_def split_on_plain normalize_def)

lemma source_file_plain:
  assumes "CHR ''/'' \<notin> set name" and "name \<notin> {[], ''.'', ''..''}"
  shows "source_file src (sourceDir i) name =
     (case src (sourceDir i @ ''/'' @ name) of
        Some sub \<Rightarrow> Some (Directory sub)
      | None \<Rightarrow> (case src (sourceDir i) of
                  None \<Rightarrow> None
                | Some l \<Rightarrow> map_option File (readFile l name)))"
proof -
  have p: "path_join [sourceDir i, name] = [sourceDir i, name]"
    using sourceDir_cases[of i] assms by (auto intro!: path_join_plain)
  show ?thesis unfolding source_file_def p
    by (simp add: stat_def split: option.splits)
qed

lemma buildMCP_dirs_cong:
  assumes "src ''shared'' = src' ''shared''" and "src ''mcp'' = src' ''mcp''"
  shows "buildMCP gm m src out = buildMCP gm m src' out"
proof -
  have s: "processSharedFiles gm c src st = processSharedFiles gm c src' st" for c st
    using assms(1) by (cases st) simp
  have m: "processMCPOnlyFiles gm c src st = processMCPOnlyFiles gm c src' st" for c st
    using assms(2) by (cases st) simp
  show ?thesis unfolding buildMCP_def s m ..
qed

lemma copy_item_plain:
  assumes "CHR ''/'' \<notin> set (item_file i)" and "item_file i \<notin> {[], ''.'', ''..''}"
    and "src (sourceDir i @ ''/'' @ item_file i) = None"
  shows "copy_item src i (t, lg) =
     (case src (sourceDir i) of
        None \<Rightarrow> (t, lg @ [Warn (''Warning: '' @ sourceDir i @ ''/'' @ item_file i @ '' not found'')])
      | Some l \<Rightarrow>
          (case readFile l (item_file i) of
             None \<Rightarrow>
               (t, lg @ [Warn (''Warning: '' @ sourceDir i @ ''/'' @ item_file i @ '' not found'')])
           | Some content \<Rightarrow>
               (t(item_file i \<mapsto> content),
                lg @ [Log (''Copied '' @ item_file i @ '' from '' @ sourceDir i @ ''/'')])))"
proof -
  have p: "path_join [sourceDir i, item_file i] = [sourceDir i, item_file i]"
    using sourceDir_cases[of i] assms(1,2) by (auto intro!: path_join_plain)
  have sp: "sourcePath i = sourceDir i @ ''/'' @ item_file i"
    by (simp add: sourcePath_def p)
  have "split_on CHR ''/'' (item_file i) = [item_file i]"
    using assms(1) by (rule split_on_plain)
  then have "path_join [item_file i] = [item_file i]"
    using assms(2) by (simp add: path_join_def normalize_def)
  then have dp: "destPath i = Some [item_file i]"
    using assms(2) by (simp add: destPath_def)
  have sf: "source_file src (sourceDir i) (item_file i)
        = (case src (sourceDir i) of None \<Rightarrow> None
           | Some l \<Rightarrow> map_option File (readFile l (item_file i)))"
    using source_file_plain[OF assms(1,2), of src i] assms(3) by simp
  show ?thesis using assms(2)
    by (simp add: sf copy_line_def sp dp split: option.splits)
qed

section \<open>The claims about the emitters\<close>

text \<open>
  C3, as the specification states it, fails. In the file written for
  \<open>shared/architecture.md\<close> the first line of the content follows the closing
  delimiter line at once: header, blank line and content would be a different text.
  The file written for \<open>mcp/code-review.md\<close>, whose source does not end in a line
  feed, ends in one.
\<close>

theorem header_blank_line_counterexample:
  "source_file docs_source ''shared'' ''architecture.md''
     = Some (File ''# System Architecture\<newline>'')
   \<and> written (buildMCP shipped (Some mcp_config_json) docs_source leftover) ''architecture.md''
       = Some ''---\<newline>description: System architecture and design decisions\<newline>alwaysApply: true\<newline>---\<newline># System Architecture\<newline>''
   \<and> ''---\<newline>description: System architecture and design decisions\<newline>alwaysApply: true\<newline>---\<newline># System Architecture\<newline>''
       \<noteq> ''---\<newline>description: System architecture and design decisions\<newline>alwaysApply: true\<newline>---\<newline>''
           @ ''\<newline>'' @ ''# System Architecture\<newline>''
   \<and> source_file docs_source ''mcp'' ''code-review.md'' = Some (File ''# Code Review Checklist'')
   \<and> written (buildMCP shipped (Some mcp_config_json) docs_source leftover) ''code-review.md''
       = Some (''---\<newline>description: Code review checklist and standards\<newline>globs:\<newline>''
           @ ''  - '' @ [CHR 0x27] @ ''**/*.ts'' @ [CHR 0x27] @ ''\<newline>''
           @ ''  - '' @ [CHR 0x27] @ ''**/*.js'' @ [CHR 0x27] @ ''\<newline>''
           @ ''  - '' @ [CHR 0x27] @ ''**/*.tsx'' @ [CHR 0x27] @ ''\<newline>''
           @ ''  - '' @ [CHR 0x27] @ ''**/*.jsx'' @ [CHR 0x27] @ ''\<newline>''
           @ ''---\<newline># Code Review Checklist\<newline>'')"
proof -
  have s: "source_file docs_source ''shared'' ''architecture.md''
             = Some (File ''# System Architecture\<newline>'')"
    "source_file docs_source ''mcp'' ''code-review.md'' = Some (File ''# Code Review Checklist'')"
    by (simp_all add: docs_source_def path_eval)
  show ?thesis unfolding written_buildMCP[OF docs_readable] using s
    by (simp add: docs_source_def emitted_def endsWith_def readFile_def map_add_def shipped_eval)
qed

text \<open>
  C3, amended. For a markdown file in which the reader of the library finds no front
  matter, and whose metadata record has distinct keys and is not empty, one turn of
  the processing loop writes the delimiter line, the YAML text of the record, the
  delimiter line again and then at once, with no blank line in between, the content
  as the reader returns it, closed by a line feed when it does not end in one. The
  content is the source text itself whenever the reader returns the text unchanged.
\<close>

theorem header_then_content:
  assumes "readFile d name = Some content" and "endsWith name ''.md''"
    and "matter gm content = Some ([], body)"
    and "distinct (map fst (frontmatter c (configKey category name)))"
    and "dump gm (frontmatter c (configKey category name)) \<noteq> ''{}''"
  shows "process_files gm c category d [name] (out, lg)
         = Inr (out(name \<mapsto> ''---\<newline>''
                    @ newline (dump gm (frontmatter c (configKey category name)))
                    @ ''---\<newline>''
                    @ (if body \<noteq> [] \<and> last body = CHR ''\<newline>'' then body
                       else body @ ''\<newline>'')),
                lg @ [processed_line category name])"
  using process_one[OF assms(1,2), of gm c category out lg] stringify_plain[OF assms(3,4,5)]
  by (simp add: newline_def)

theorem header_then_content_witness:
  "readFile [(''architecture.md'', ''# System Architecture\<newline>'')] ''architecture.md''
     = Some ''# System Architecture\<newline>''
   \<and> endsWith ''architecture.md'' ''.md''
   \<and> matter shipped ''# System Architecture\<newline>'' = Some ([], ''# System Architecture\<newline>'')
   \<and> distinct (map fst (frontmatter mcp_config_json (configKey ''shared'' ''architecture.md'')))
   \<and> dump shipped (frontmatter mcp_config_json (configKey ''shared'' ''architecture.md'')) \<noteq> ''{}''
   \<and> process_files shipped mcp_config_json ''shared''
        [(''architecture.md'', ''# System Architecture\<newline>'')] [''architecture.md''] (leftover, [])
       = Inr (leftover(''architecture.md'' \<mapsto>
                ''---\<newline>description: System architecture and design decisions\<newline>alwaysApply: true\<newline>---\<newline># System Architecture\<newline>''),
              [processed_line ''shared'' ''architecture.md''])"
proof -
  have h1: "readFile [(''architecture.md'', ''# System Architecture\<newline>'')] ''architecture.md''
     = Some ''# System Architecture\<newline>''" by (simp add: readFile_def)
  have h2: "endsWith ''architecture.md'' ''.md''" by (simp add: endsWith_def)
  have h3: "matter shipped ''# System Architecture\<newline>''
            = Some ([], ''# System Architecture\<newline>'')"
    by (simp add: shipped_def flat_matter_def lines_of_def split_on_def)
  have h4: "distinct (map fst (frontmatter mcp_config_json (configKey ''shared'' ''architecture.md'')))"
    by (simp add: frontmatter_def mcp_config_json_def configKey_def)
  have h5: "dump shipped (frontmatter mcp_config_json (configKey ''shared'' ''architecture.md'')) \<noteq> ''{}''"
    by (simp add: shipped_def frontmatter_def mcp_config_json_def configKey_def yaml_block_def)
  have d: "dump shipped (frontmatter mcp_config_json (configKey ''shared'' ''architecture.md''))
     = ''description: System architecture and design decisions\<newline>alwaysApply: true''"
    by (simp add: shipped_def frontmatter_def mcp_config_json_def configKey_def yaml_block_def)
  from header_then_content[OF h1 h2 h3 h4 h5, of leftover "[]"] h1 h2 h3 h4 h5
  show ?thesis unfolding d by (simp add: newline_def)
qed

text \<open>
  C6, as the specification states it, fails in its second part. \<open>shared/notes.md\<close>
  has no template entry and carries a field \<open>title\<close> in front matter of its own.
  The header of the file written is not the default template: it holds the field of
  the file followed by the field of the default.
\<close>

theorem frontmatter_merge_counterexample:
  "frontmatterTemplates mcp_config_json ''shared/notes.md'' = None
   \<and> written (buildMCP shipped (Some mcp_config_json) draft_source leftover) ''notes.md''
       = Some ''---\<newline>title: Draft\<newline>description: General project documentation\<newline>---\<newline># Notes\<newline>''
   \<and> dump shipped (defaultFrontmatter mcp_config_json)
       = ''description: General project documentation''
   \<and> ''---\<newline>title: Draft\<newline>description: General project documentation\<newline>---\<newline># Notes\<newline>''
       \<noteq> ''---\<newline>'' @ dump shipped (defaultFrontmatter mcp_config_json) @ ''\<newline>---\<newline>''
           @ ''# Notes\<newline>''"
  unfolding written_buildMCP[OF draft_readable]
  by (simp add: draft_source_def emitted_def endsWith_def readFile_def map_add_def shipped_eval)

text \<open>
  C6, amended. The metadata of a file is the template entry under
  \<open>category/filename\<close> when there is one and the default record otherwise, and the
  file written is what \<open>matter.stringify\<close> makes of the content and that record; when
  \<open>matter.stringify\<close> throws, no file is written and the run ends. When the reader
  finds no front matter in the content and the record is not empty, the header is
  the delimited YAML text of exactly that record.
\<close>

theorem frontmatter_precedence:
  assumes "readFile d name = Some content" and "endsWith name ''.md''"
  shows "process_files gm c category d [name] (out, lg)
         = (case stringify gm content
                   (case frontmatterTemplates c (category @ ''/'' @ name) of
                      Some template \<Rightarrow> template
                    | None \<Rightarrow> defaultFrontmatter c) of
              None \<Rightarrow> Inl (ParseError name)
            | Some fileWithFrontmatter \<Rightarrow>
                Inr (out(name \<mapsto> fileWithFrontmatter), lg @ [processed_line category name]))
       \<and> (\<forall>data body. matter gm content = Some ([], body) \<and> distinct (map fst data)
              \<and> dump gm data \<noteq> ''{}'' \<longrightarrow>
            stringify gm content data
              = Some (''---\<newline>'' @ newline (dump gm data) @ ''---\<newline>'' @ newline body))"
  using process_one[OF assms, of gm c category out lg] stringify_plain
  by (simp add: frontmatter_def configKey_def)

theorem frontmatter_precedence_witness:
  "readFile [(''code-review.md'', ''# Code Review Checklist''), (''tips.md'', ''# Tips\<newline>'')] ''tips.md''
     = Some ''# Tips\<newline>''
   \<and> endsWith ''tips.md'' ''.md''
   \<and> frontmatterTemplates mcp_config_json ''mcp/tips.md'' = None
   \<and> matter shipped ''# Tips\<newline>'' = Some ([], ''# Tips\<newline>'')
   \<and> distinct (map fst (defaultFrontmatter mcp_config_json))
   \<and> dump shipped (defaultFrontmatter mcp_config_json) \<noteq> ''{}''
   \<and> stringify shipped ''# Tips\<newline>'' (defaultFrontmatter mcp_config_json)
       = Some ''---\<newline>description: General project documentation\<newline>---\<newline># Tips\<newline>''
   \<and> process_files shipped mcp_config_json ''mcp''
        [(''code-review.md'', ''# Code Review Checklist''), (''tips.md'', ''# Tips\<newline>'')]
        [''tips.md''] (leftover, [])
       = Inr (leftover(''tips.md'' \<mapsto>
                ''---\<newline>description: General project documentation\<newline>---\<newline># Tips\<newline>''),
              [processed_line ''mcp'' ''tips.md''])"
proof -
  let ?d = "[(''code-review.md'', ''# Code Review Checklist''), (''tips.md'', ''# Tips\<newline>'')]"
  have h1: "readFile ?d ''tips.md'' = Some ''# Tips\<newline>''" by (simp add: readFile_def)
  have h2: "endsWith ''tips.md'' ''.md''" by (simp add: endsWith_def)
  have t: "frontmatterTemplates mcp_config_json ''mcp/tips.md'' = None"
    by (simp add: mcp_config_json_def)
  have m: "matter shipped ''# Tips\<newline>'' = Some ([], ''# Tips\<newline>'')"
    by (simp add: shipped_def flat_matter_def lines_of_def split_on_def)
  have di: "distinct (map fst (defaultFrontmatter mcp_config_json))"
    by (simp add: mcp_config_json_def)
  have du: "dump shipped (defaultFrontmatter mcp_config_json)
            = ''description: General project documentation''"
    by (simp add: shipped_def mcp_config_json_def yaml_block_def)
  have ne: "dump shipped (defaultFrontmatter mcp_config_json) \<noteq> ''{}''" unfolding du by simp
  note f = frontmatter_precedence[OF h1 h2, of shipped mcp_config_json "''mcp''" leftover "[]"]
  from f[THEN conjunct2] m di ne
  have "stringify shipped ''# Tips\<newline>'' (defaultFrontmatter mcp_config_json)
       = Some (''---\<newline>'' @ newline (dump shipped (defaultFrontmatter mcp_config_json))
               @ ''---\<newline>'' @ newline ''# Tips\<newline>'')" by blast
  then have c: "stringify shipped ''# Tips\<newline>'' (defaultFrontmatter mcp_config_json)
       = Some ''---\<newline>description: General project documentation\<newline>---\<newline># Tips\<newline>''"
    unfolding du by (simp add: newline_def)
  have a: "process_files shipped mcp_config_json ''mcp'' ?d [''tips.md''] (leftover, [])
       = Inr (leftover(''tips.md'' \<mapsto>
                ''---\<newline>description: General project documentation\<newline>---\<newline># Tips\<newline>''),
              [processed_line ''mcp'' ''tips.md''])"
    using f[THEN conjunct1] t by (simp add: c)
  show ?thesis using h1 h2 t m di ne c a by blast
qed

text \<open>
  C10, as the specification states it, fails for the name \<open>markdown-rules.md\<close>. The
  name exists in both directories, yet the file left under it holds neither variant:
  \<open>generateUsageInstructions\<close> runs last and writes the usage instructions there.
\<close>

theorem usage_instructions_overwrite_counterexample:
  "source_file draft_source ''shared'' ''markdown-rules.md'' = Some (File ''# Shared rules\<newline>'')
   \<and> source_file draft_source ''mcp'' ''markdown-rules.md'' = Some (File ''# Team rules\<newline>'')
   \<and> endsWith ''markdown-rules.md'' ''.md''
   \<and> written (buildMCP shipped (Some mcp_config_json) draft_source leftover) ''markdown-rules.md''
       = Some usageContent
   \<and> stringify shipped ''# Team rules\<newline>''
         (frontmatter mcp_config_json (configKey ''mcp'' ''markdown-rules.md''))
       = Some ''---\<newline>description: General project documentation\<newline>---\<newline># Team rules\<newline>''
   \<and> usageContent \<noteq> ''---\<newline>description: General project documentation\<newline>---\<newline># Team rules\<newline>''"
proof -
  have ne: "usageContent \<noteq> ''---\<newline>description: General project documentation\<newline>---\<newline># Team rules\<newline>''"
  proof
    assume e: "usageContent = ''---\<newline>description: General project documentation\<newline>---\<newline># Team rules\<newline>''"
    have "hd (drop 17 usageContent) = CHR ''G''" unfolding e by simp
    with usage_at_17 show False by simp
  qed
  have s: "stringify shipped ''# Team rules\<newline>''
         (frontmatter mcp_config_json (configKey ''mcp'' ''markdown-rules.md''))
       = Some ''---\<newline>description: General project documentation\<newline>---\<newline># Team rules\<newline>''"
    by (simp add: shipped_eval)
  have f: "source_file draft_source ''shared'' ''markdown-rules.md'' = Some (File ''# Shared rules\<newline>'')"
    "source_file draft_source ''mcp'' ''markdown-rules.md'' = Some (File ''# Team rules\<newline>'')"
    by (simp_all add: draft_source_def path_eval)
  show ?thesis unfolding written_buildMCP[OF draft_readable] using ne s f
    by (simp add: endsWith_def)
qed

text \<open>
  A run that completes on a tree in which a markdown file name exists in both
  directories: both passes have written under the name, the second over the first.
\<close>

lemma both_variants_written:
  assumes "src ''shared'' = Some ds" and "readFile ds name = Some shared_content"
    and "src ''mcp'' = Some dm" and "readFile dm name = Some mcp_content"
    and "endsWith name ''.md''"
    and "buildMCP gm (Some c) src out = Inr (out', lg)"
  shows "readable gm src
       \<and> (\<exists>shared_variant mcp_variant.
            stringify gm shared_content (frontmatter c (configKey ''shared'' name))
              = Some shared_variant
          \<and> stringify gm mcp_content (frontmatter c (configKey ''mcp'' name))
              = Some mcp_variant
          \<and> (\<exists>out1 lg1. processSharedFiles gm c src (emptyDir out, lg0) = Inr (out1, lg1)
                \<and> out1 name = Some shared_variant)
          \<and> (name \<noteq> ''markdown-rules.md'' \<longrightarrow> out' name = Some mcp_variant))
       \<and> out' ''markdown-rules.md'' = Some usageContent
       \<and> (\<forall>m \<in> set lg. \<forall>t. m \<noteq> Warn t)"
proof -
  have r: "readable gm src" using assms(6) buildMCP_completes_iff[of gm c src out] by blast
  then have ps: "parses gm ds" and pm: "parses gm dm"
    using assms(1,3) by (simp_all add: readable_def)
  have ns: "name \<in> set (readdir ds)" and nm: "name \<in> set (readdir dm)"
    using assms(2,4) by (auto simp: readdir_def readFile_def dest: map_of_SomeD intro: rev_image_eqI)
  have es: "emitted gm c ''shared'' ds name
            = stringify gm shared_content (frontmatter c (configKey ''shared'' name))"
    and em: "emitted gm c ''mcp'' dm name
            = stringify gm mcp_content (frontmatter c (configKey ''mcp'' name))"
    using assms(2,4,5) by (simp_all add: emitted_def)
  obtain sv where sv: "emitted gm c ''shared'' ds name = Some sv"
    using ps ns assms(5) parses_iff[of gm ds c "''shared''"] by auto
  obtain mv where mv: "emitted gm c ''mcp'' dm name = Some mv"
    using pm nm assms(5) parses_iff[of gm dm c "''mcp''"] by auto
  have a: "processSharedFiles gm c src (emptyDir out, lg0)
           = Inr (Map.empty ++ emitted gm c ''shared'' ds,
                  lg0 @ processed_lines ''shared'' (readdir ds))"
    using assms(1) by (simp add: emptyDir_def process_dir[OF ps])
  have o: "out' = (emitted gm c ''shared'' ds ++ emitted gm c ''mcp'' dm)
                    (''markdown-rules.md'' \<mapsto> usageContent)"
    and l: "lg = [Log ''Building MCP documentation...'']
          @ processed_lines ''shared'' (readdir ds) @ processed_lines ''mcp'' (readdir dm)
          @ [Log ''Generated markdown-rules.md'', Log ''MCP documentation built successfully!'',
             Log ''Output directory: docs/build/mcp'']"
    using assms(6) buildMCP_closed[OF r, of c out] assms(1,3) by simp_all
  have w: "\<forall>m \<in> set lg. \<forall>t. m \<noteq> Warn t"
    unfolding l using no_warn_processed by auto
  have x: "name \<noteq> ''markdown-rules.md'' \<longrightarrow> out' name = Some mv"
    unfolding o using mv by (simp add: map_add_def)
  have y: "out' ''markdown-rules.md'' = Some usageContent" unfolding o by simp
  have z: "\<exists>out1 lg1. processSharedFiles gm c src (emptyDir out, lg0) = Inr (out1, lg1)
                \<and> out1 name = Some sv"
    unfolding a using sv by simp
  have s1: "stringify gm shared_content (frontmatter c (configKey ''shared'' name)) = Some sv"
    using es sv by simp
  have s2: "stringify gm mcp_content (frontmatter c (configKey ''mcp'' name)) = Some mv"
    using em mv by simp
  have mid: "\<exists>shared_variant mcp_variant.
            stringify gm shared_content (frontmatter c (configKey ''shared'' name))
              = Some shared_variant
          \<and> stringify gm mcp_content (frontmatter c (configKey ''mcp'' name))
              = Some mcp_variant
          \<and> (\<exists>out1 lg1. processSharedFiles gm c src (emptyDir out, lg0) = Inr (out1, lg1)
                \<and> out1 name = Some shared_variant)
          \<and> (name \<noteq> ''markdown-rules.md'' \<longrightarrow> out' name = Some mcp_variant)"
    using s1 s2 z x by blast
  show ?thesis using r mid y w by blast
qed

text \<open>
  C10, amended. When a markdown file name exists in \<open>shared\<close> and in \<open>mcp\<close> and the
  run completes, which it does exactly when the reader of the library accepts every
  markdown file of the two directories, the pass over \<open>shared\<close> writes the shared
  variant under that name, and at the end of the run the file under that name holds
  the \<open>mcp\<close> variant with the front matter resolved for \<open>mcp/name\<close>, unless the name
  is \<open>markdown-rules.md\<close>, which holds the usage instructions. No warning is printed.
\<close>

theorem mcp_variant_wins:
  assumes "src ''shared'' = Some ds" and "readFile ds name = Some shared_content"
    and "src ''mcp'' = Some dm" and "readFile dm name = Some mcp_content"
    and "endsWith name ''.md''"
  shows "((\<exists>out' lg. buildMCP gm (Some c) src out = Inr (out', lg)) \<longleftrightarrow> readable gm src)
       \<and> (\<forall>out' lg. buildMCP gm (Some c) src out = Inr (out', lg) \<longrightarrow>
            (\<exists>shared_variant mcp_variant.
               stringify gm shared_content (frontmatter c (configKey ''shared'' name))
                 = Some shared_variant
             \<and> stringify gm mcp_content (frontmatter c (configKey ''mcp'' name))
                 = Some mcp_variant
             \<and> (\<exists>out1 lg1. processSharedFiles gm c src (emptyDir out, lg0) = Inr (out1, lg1)
                   \<and> out1 name = Some shared_variant)
             \<and> (name \<noteq> ''markdown-rules.md'' \<longrightarrow> out' name = Some mcp_variant))
          \<and> out' ''markdown-rules.md'' = Some usageContent
          \<and> (\<forall>m \<in> set lg. \<forall>t. m \<noteq> Warn t))"
proof (intro conjI allI impI)
  show "(\<exists>out' lg. buildMCP gm (Some c) src out = Inr (out', lg)) \<longleftrightarrow> readable gm src"
    by (rule buildMCP_completes_iff)
next
  fix out' lg
  assume b: "buildMCP gm (Some c) src out = Inr (out', lg)"
  note v = both_variants_written[OF assms b, of lg0]
  show "\<exists>shared_variant mcp_variant.
               stringify gm shared_content (frontmatter c (configKey ''shared'' name))
                 = Some shared_variant
             \<and> stringify gm mcp_content (frontmatter c (configKey ''mcp'' name))
                 = Some mcp_variant
             \<and> (\<exists>out1 lg1. processSharedFiles gm c src (emptyDir out, lg0) = Inr (out1, lg1)
                   \<and> out1 name = Some shared_variant)
             \<and> (name \<noteq> ''markdown-rules.md'' \<longrightarrow> out' name = Some mcp_variant)"
    by (rule v[THEN conjunct2, THEN conjunct1])
  show "out' ''markdown-rules.md'' = Some usageContent"
    by (rule v[THEN conjunct2, THEN conjunct2, THEN conjunct1])
  show "\<forall>m \<in> set lg. \<forall>t. m \<noteq> Warn t"
    by (rule v[THEN conjunct2, THEN conjunct2, THEN conjunct2])
qed

theorem mcp_variant_wins_witness:
  "draft_source ''shared'' = Some [(''notes.md'', ''---\<newline>title: Draft\<newline>---\<newline># Notes\<newline>''),
                            (''faq.md'', ''# Questions\<newline>''),
                            (''markdown-rules.md'', ''# Shared rules\<newline>'')]
   \<and> draft_source ''mcp'' = Some [(''markdown-rules.md'', ''# Team rules\<newline>''),
                         (''faq.md'', ''# Answers for the assistant\<newline>'')]
   \<and> endsWith ''faq.md'' ''.md'' \<and> ''faq.md'' \<noteq> ''markdown-rules.md''
   \<and> buildMCP shipped (Some mcp_config_json) draft_source leftover
       = Inr (written (buildMCP shipped (Some mcp_config_json) draft_source leftover),
              printed (buildMCP shipped (Some mcp_config_json) draft_source leftover))
   \<and> written (buildMCP shipped (Some mcp_config_json) draft_source leftover) ''faq.md''
       = Some ''---\<newline>description: General project documentation\<newline>---\<newline># Answers for the assistant\<newline>''"
proof -
  have s: "draft_source ''shared'' = Some [(''notes.md'', ''---\<newline>title: Draft\<newline>---\<newline># Notes\<newline>''),
                            (''faq.md'', ''# Questions\<newline>''),
                            (''markdown-rules.md'', ''# Shared rules\<newline>'')]"
    and m: "draft_source ''mcp'' = Some [(''markdown-rules.md'', ''# Team rules\<newline>''),
                         (''faq.md'', ''# Answers for the assistant\<newline>'')]"
    by (simp_all add: draft_source_def)
  have rs: "readFile [(''notes.md'', ''---\<newline>title: Draft\<newline>---\<newline># Notes\<newline>''),
                            (''faq.md'', ''# Questions\<newline>''),
                            (''markdown-rules.md'', ''# Shared rules\<newline>'')] ''faq.md''
            = Some ''# Questions\<newline>''"
    and rm: "readFile [(''markdown-rules.md'', ''# Team rules\<newline>''),
                         (''faq.md'', ''# Answers for the assistant\<newline>'')] ''faq.md''
             = Some ''# Answers for the assistant\<newline>''"
    by (simp_all add: readFile_def)
  have e: "endsWith ''faq.md'' ''.md''" by (simp add: endsWith_def)
  have v: "stringify shipped ''# Answers for the assistant\<newline>''
             (frontmatter mcp_config_json (configKey ''mcp'' ''faq.md''))
       = Some ''---\<newline>description: General project documentation\<newline>---\<newline># Answers for the assistant\<newline>''"
    by (simp add: shipped_eval)
  note b = buildMCP_Inr[OF draft_readable, of mcp_config_json leftover]
  note t = mcp_variant_wins[OF s rs m rm e, where gm = shipped and c = mcp_config_json
      and out = leftover and ?lg0.0 = "[]"]
  from t[THEN conjunct2, rule_format, OF b] v
  have "written (buildMCP shipped (Some mcp_config_json) draft_source leftover) ''faq.md''
       = Some ''---\<newline>description: General project documentation\<newline>---\<newline># Answers for the assistant\<newline>''"
    by auto
  then show ?thesis using s m e b by simp
qed





text \<open>
  C4, as the specification states it, fails. In a source tree whose directories are
  named \<open>gitbook-only\<close> and \<open>mcp-only\<close>, the metadata-target emitter reports that
  the MCP directory is not found and writes no \<open>code-review.md\<close>, and the publishing
  emitter does not find \<open>getting-started.md\<close>. Nor does the publishing emitter take
  the markdown files of a directory: a markdown file of \<open>gitbook\<close> that the manifest
  does not list is not copied.
\<close>

theorem directory_names_counterexample:
  "renamed_source ''mcp-only'' = Some [(''code-review.md'', ''# Code Review Checklist'')]
   \<and> written (buildMCP shipped (Some mcp_config_json) renamed_source leftover) ''code-review.md'' = None
   \<and> printed (buildMCP shipped (Some mcp_config_json) renamed_source leftover)
       = [Log ''Building MCP documentation...'', processed_line ''shared'' ''architecture.md'',
          Warn ''MCP directory not found'', Log ''Generated markdown-rules.md'',
          Log ''MCP documentation built successfully!'', Log ''Output directory: docs/build/mcp'']
   \<and> renamed_source ''gitbook-only''
       = Some [(''getting-started.md'', ''# Getting Started Tutorial\<newline>'')]
   \<and> written (buildGitBook (Some gitbook_config_json) ''2025-08-03'' renamed_source leftover)
         ''getting-started.md'' = None
   \<and> Warn ''Warning: gitbook/getting-started.md not found''
       \<in> set (printed (buildGitBook (Some gitbook_config_json) ''2025-08-03'' renamed_source leftover))
   \<and> unlisted_source ''gitbook''
       = Some [(''getting-started.md'', ''# Getting Started Tutorial\<newline>''),
               (''changelog.md'', ''# Changelog\<newline>'')]
   \<and> written (buildGitBook (Some gitbook_config_json) ''2025-08-03'' unlisted_source leftover)
         ''changelog.md'' = None"
proof -
  have a: "written (buildMCP shipped (Some mcp_config_json) renamed_source leftover) ''code-review.md'' = None"
    unfolding written_buildMCP[OF renamed_readable]
    by (simp add: renamed_source_def emitted_def endsWith_def readFile_def map_add_def)
  have b: "printed (buildMCP shipped (Some mcp_config_json) renamed_source leftover)
       = [Log ''Building MCP documentation...'', processed_line ''shared'' ''architecture.md'',
          Warn ''MCP directory not found'', Log ''Generated markdown-rules.md'',
          Log ''MCP documentation built successfully!'', Log ''Output directory: docs/build/mcp'']"
    unfolding printed_buildMCP[OF renamed_readable]
    by (simp add: renamed_source_def processed_lines_def readdir_def endsWith_def)
  have c: "written (buildGitBook (Some gitbook_config_json) ''2025-08-03'' renamed_source leftover)
         ''getting-started.md'' = None"
    using written_buildGitBook_other[of "''getting-started.md''" renamed_source
        gitbook_config_json "''2025-08-03''" leftover]
    by (simp add: renamed_copied_files renamed_no_assets)
  have l: "copy_line renamed_source
             \<lparr>item_title = ''Getting Started'', item_file = ''getting-started.md'',
              item_source = ''gitbook''\<rparr>
           = Warn ''Warning: gitbook/getting-started.md not found''"
    by (simp add: copy_line_def sourcePath_def renamed_source_def path_eval)
  have "copy_line renamed_source
             \<lparr>item_title = ''Getting Started'', item_file = ''getting-started.md'',
              item_source = ''gitbook''\<rparr>
        \<in> set (printed (buildGitBook (Some gitbook_config_json) ''2025-08-03'' renamed_source leftover))"
  proof -
    from printed_buildGitBook[of gitbook_config_json "''2025-08-03''" renamed_source leftover]
    obtain extra where
      p: "printed (buildGitBook (Some gitbook_config_json) ''2025-08-03'' renamed_source leftover) =
      [Log ''Building GitBook documentation...'', Log ''Generated README.md'',
       Log ''Generated SUMMARY.md'']
      @ map (copy_line renamed_source) (config_structure gitbook_config_json) @ extra"
      by (elim exE)
    show ?thesis unfolding p by (simp add: gitbook_config_json_def)
  qed
  then have d: "Warn ''Warning: gitbook/getting-started.md not found''
       \<in> set (printed (buildGitBook (Some gitbook_config_json) ''2025-08-03'' renamed_source leftover))"
    unfolding l .
  have e: "written (buildGitBook (Some gitbook_config_json) ''2025-08-03'' unlisted_source leftover)
         ''changelog.md'' = None"
    using written_buildGitBook_other[of "''changelog.md''" unlisted_source
        gitbook_config_json "''2025-08-03''" leftover]
    by (simp add: unlisted_copied_files unlisted_no_assets)
  have r1: "renamed_source ''mcp-only'' = Some [(''code-review.md'', ''# Code Review Checklist'')]"
    by (simp add: renamed_source_def)
  have r2: "renamed_source ''gitbook-only''
       = Some [(''getting-started.md'', ''# Getting Started Tutorial\<newline>'')]"
    by (simp add: renamed_source_def)
  have r3: "unlisted_source ''gitbook''
       = Some [(''getting-started.md'', ''# Getting Started Tutorial\<newline>''),
               (''changelog.md'', ''# Changelog\<newline>'')]"
    by (simp add: unlisted_source_def)
  show ?thesis by (intro conjI r1 a b r2 c d r3 e)
qed

text \<open>
  C4, amended. The directories read are \<open>shared\<close>, \<open>gitbook\<close> and \<open>mcp\<close>. The
  metadata-target emitter reads \<open>shared\<close> and \<open>mcp\<close> and nothing else of the source
  tree, and in every run that completes the files it has written are the usage
  instructions and the markdown files directly in these two directories. The
  publishing emitter takes no directory's list of markdown files: for a manifest entry
  whose file is a plain name, and which does not name a directory, one turn of its
  copy loop copies the file of that name from \<open>shared\<close> when the source of the entry
  is \<open>shared\<close> and from \<open>gitbook\<close> otherwise, and warns when there is none.
\<close>

theorem classifier_directories:
  "(src ''shared'' = src' ''shared'' \<and> src ''mcp'' = src' ''mcp''
      \<longrightarrow> buildMCP gm m src out = buildMCP gm m src' out)
   \<and> (buildMCP gm (Some c) src out = Inr (out', lg)
      \<longrightarrow> dom out' = insert ''markdown-rules.md'' (md_files src ''shared'' \<union> md_files src ''mcp''))
   \<and> (CHR ''/'' \<notin> set (item_file i) \<and> item_file i \<notin> {[], ''.'', ''..''}
        \<and> src ((if item_source i = ''shared'' then ''shared'' else ''gitbook'')
                 @ ''/'' @ item_file i) = None
      \<longrightarrow> copy_item src i (t, lg0)
          = (case (case src (if item_source i = ''shared'' then ''shared'' else ''gitbook'') of
                     None \<Rightarrow> None
                   | Some l \<Rightarrow> readFile l (item_file i)) of
               None \<Rightarrow>
                 (t, lg0 @ [Warn (''Warning: ''
                                  @ (if item_source i = ''shared'' then ''shared'' else ''gitbook'')
                                  @ ''/'' @ item_file i @ '' not found'')])
             | Some content \<Rightarrow>
                 (t(item_file i \<mapsto> content),
                  lg0 @ [Log (''Copied '' @ item_file i @ '' from ''
                              @ (if item_source i = ''shared'' then ''shared'' else ''gitbook'')
                              @ ''/'')])))"
proof -
  have a: "src ''shared'' = src' ''shared'' \<and> src ''mcp'' = src' ''mcp''
      \<longrightarrow> buildMCP gm m src out = buildMCP gm m src' out"
    using buildMCP_dirs_cong[of src src' gm m out] by blast
  have b: "buildMCP gm (Some c) src out = Inr (out', lg)
      \<longrightarrow> dom out' = insert ''markdown-rules.md'' (md_files src ''shared'' \<union> md_files src ''mcp'')"
  proof
    assume r: "buildMCP gm (Some c) src out = Inr (out', lg)"
    then have rd: "readable gm src"
      using buildMCP_completes_iff[of gm c src out] by blast
    from r have w: "written (buildMCP gm (Some c) src out) = out'"
      by (intro ext) (simp add: written_def)
    from dom_written_buildMCP[OF rd, of c out]
    show "dom out' = insert ''markdown-rules.md'' (md_files src ''shared'' \<union> md_files src ''mcp'')"
      unfolding w .
  qed
  have s: "(if item_source i = ''shared'' then ''shared'' else ''gitbook'') = sourceDir i"
    by (simp add: sourceDir_def)
  have d: "CHR ''/'' \<notin> set (item_file i) \<and> item_file i \<notin> {[], ''.'', ''..''}
        \<and> src (sourceDir i @ ''/'' @ item_file i) = None
      \<longrightarrow> copy_item src i (t, lg0)
          = (case (case src (sourceDir i) of
                     None \<Rightarrow> None
                   | Some l \<Rightarrow> readFile l (item_file i)) of
               None \<Rightarrow>
                 (t, lg0 @ [Warn (''Warning: '' @ sourceDir i @ ''/'' @ item_file i @ '' not found'')])
             | Some content \<Rightarrow>
                 (t(item_file i \<mapsto> content),
                  lg0 @ [Log (''Copied '' @ item_file i @ '' from '' @ sourceDir i @ ''/'')]))"
  proof
    assume p: "CHR ''/'' \<notin> set (item_file i) \<and> item_file i \<notin> {[], ''.'', ''..''}
        \<and> src (sourceDir i @ ''/'' @ item_file i) = None"
    then have p1: "CHR ''/'' \<notin> set (item_file i)" and p2: "item_file i \<notin> {[], ''.'', ''..''}"
      and p3: "src (sourceDir i @ ''/'' @ item_file i) = None"
      by blast+
    show "copy_item src i (t, lg0)
          = (case (case src (sourceDir i) of
                     None \<Rightarrow> None
                   | Some l \<Rightarrow> readFile l (item_file i)) of
               None \<Rightarrow>
                 (t, lg0 @ [Warn (''Warning: '' @ sourceDir i @ ''/'' @ item_file i @ '' not found'')])
             | Some content \<Rightarrow>
                 (t(item_file i \<mapsto> content),
                  lg0 @ [Log (''Copied '' @ item_file i @ '' from '' @ sourceDir i @ ''/'')]))"
      unfolding copy_item_plain[of i src t lg0, OF p1 p2 p3] by (simp split: option.splits)
  qed
  show ?thesis unfolding s by (intro conjI a b d)
qed

theorem classifier_directories_witness:
  "renamed_source ''shared'' = (renamed_source(''mcp-only'' := None)) ''shared''
   \<and> renamed_source ''mcp'' = (renamed_source(''mcp-only'' := None)) ''mcp''
   \<and> buildMCP shipped (Some mcp_config_json) renamed_source leftover
       = buildMCP shipped (Some mcp_config_json) (renamed_source(''mcp-only'' := None)) leftover
   \<and> buildMCP shipped (Some mcp_config_json) docs_source leftover
       = Inr (written (buildMCP shipped (Some mcp_config_json) docs_source leftover),
              printed (buildMCP shipped (Some mcp_config_json) docs_source leftover))
   \<and> dom (written (buildMCP shipped (Some mcp_config_json) docs_source leftover))
       = {''markdown-rules.md'', ''architecture.md'', ''code-review.md''}
   \<and> CHR ''/'' \<notin> set ''getting-started.md''
   \<and> docs_source ''gitbook/getting-started.md'' = None
   \<and> copy_item docs_source
         \<lparr>item_title = ''Getting Started'', item_file = ''getting-started.md'',
          item_source = ''gitbook''\<rparr> (leftover, [])
       = (leftover(''getting-started.md'' \<mapsto> ''# Getting Started Tutorial\<newline>''),
          [Log ''Copied getting-started.md from gitbook/''])
   \<and> copy_item renamed_source
         \<lparr>item_title = ''Getting Started'', item_file = ''getting-started.md'',
          item_source = ''gitbook''\<rparr> (leftover, [])
       = (leftover, [Warn ''Warning: gitbook/getting-started.md not found''])"
proof -
  have h1: "renamed_source ''shared'' = (renamed_source(''mcp-only'' := None)) ''shared''"
    and h2: "renamed_source ''mcp'' = (renamed_source(''mcp-only'' := None)) ''mcp''"
    by simp_all
  from classifier_directories[where src = renamed_source
      and src' = "renamed_source(''mcp-only'' := None)" and gm = shipped
      and m = "Some mcp_config_json" and out = leftover, THEN conjunct1, rule_format,
      OF conjI[OF h1 h2]]
  have a: "buildMCP shipped (Some mcp_config_json) renamed_source leftover
       = buildMCP shipped (Some mcp_config_json) (renamed_source(''mcp-only'' := None)) leftover" .
  note r = buildMCP_Inr[OF docs_readable, of mcp_config_json leftover]
  from classifier_directories[where src = docs_source and gm = shipped and c = mcp_config_json
      and out = leftover, THEN conjunct2, THEN conjunct1, rule_format, OF r]
  have b: "dom (written (buildMCP shipped (Some mcp_config_json) docs_source leftover))
       = {''markdown-rules.md'', ''architecture.md'', ''code-review.md''}"
    unfolding docs_md_files by auto
  let ?i = "\<lparr>item_title = ''Getting Started'', item_file = ''getting-started.md'',
             item_source = ''gitbook''\<rparr>"
  have p1: "CHR ''/'' \<notin> set ''getting-started.md''" by simp
  have p2: "docs_source ''gitbook/getting-started.md'' = None"
    by (simp add: docs_source_def)
  have p: "CHR ''/'' \<notin> set (item_file ?i) \<and> item_file ?i \<notin> {[], ''.'', ''..''}
        \<and> docs_source ((if item_source ?i = ''shared'' then ''shared'' else ''gitbook'')
                 @ ''/'' @ item_file ?i) = None"
    using p2 by simp
  from classifier_directories[where src = docs_source and i = ?i and t = leftover
      and ?lg0.0 = "[]", THEN conjunct2, THEN conjunct2, rule_format, OF p]
  have d: "copy_item docs_source ?i (leftover, [])
       = (leftover(''getting-started.md'' \<mapsto> ''# Getting Started Tutorial\<newline>''),
          [Log ''Copied getting-started.md from gitbook/''])"
    by (simp add: docs_source_def readFile_def)
  have q: "CHR ''/'' \<notin> set (item_file ?i) \<and> item_file ?i \<notin> {[], ''.'', ''..''}
        \<and> renamed_source ((if item_source ?i = ''shared'' then ''shared'' else ''gitbook'')
                 @ ''/'' @ item_file ?i) = None"
    by (simp add: renamed_source_def)
  from classifier_directories[where src = renamed_source and i = ?i and t = leftover
      and ?lg0.0 = "[]", THEN conjunct2, THEN conjunct2, rule_format, OF q]
  have e: "copy_item renamed_source ?i (leftover, [])
       = (leftover, [Warn ''Warning: gitbook/getting-started.md not found''])"
    by (simp add: renamed_source_def)
  show ?thesis by (intro conjI h1 h2 a r b p1 p2 d e)
qed




end
